theory Spec2Isabelle
  imports Complex_Main
begin

section \<open>JavaScript values\<close>

text \<open>
  The module \<^verbatim>\<open>src/geocoding.ts\<close> handles three kinds of run-time data: typed
  objects of the Google Maps client, untyped JSON payloads of the Nominatim HTTP
  service (\<^verbatim>\<open>any\<close> in the source), and thrown values. JSON payloads are modelled
  as JavaScript values with the language's own rules for truthiness, property access
  and string conversion, so that every branch the source can take on an arbitrary
  payload is a branch of the model.

  Strings are \<open>string\<close>, lists of 8-bit characters: a character stands for the
  UTF-16 code unit of the same number, so the strings of the model are the
  JavaScript strings whose code units are all below \<open>0x100\<close>. The string operations
  of the source (\<^verbatim>\<open>endsWith\<close>, \<^verbatim>\<open>slice\<close>, \<^verbatim>\<open>replace\<close>, \<^verbatim>\<open>trim\<close>, concatenation)
  are modelled on that representation. An object lists its own properties, each key
  once.
\<close>

datatype number = NaN | PosInfinity | NegInfinity | Finite real

datatype jsval =
    JUndefined
  | JNull
  | JBool bool
  | JNumber number
  | JString string
  | JArray "jsval list"
  | JObject "(string \<times> jsval) list"

text \<open>
  A thrown value: an instance of \<^verbatim>\<open>Error\<close> with its message, or anything else.
  The catch handlers of the source only distinguish these two
  (\<^verbatim>\<open>error instanceof Error ? error.message : 'Unknown error'\<close>).
\<close>

datatype thrown = Error string | NonError

definition errorMessage :: "thrown \<Rightarrow> string" where
  "errorMessage e = (case e of Error m \<Rightarrow> m | NonError \<Rightarrow> ''Unknown error'')"

text \<open>Sequencing of steps that may throw: the first throw ends the sequence.\<close>

definition andThen :: "thrown + 'a \<Rightarrow> ('a \<Rightarrow> thrown + 'b) \<Rightarrow> thrown + 'b" where
  "andThen m f = (case m of Inl e \<Rightarrow> Inl e | Inr x \<Rightarrow> f x)"

fun collect :: "(thrown + 'a) list \<Rightarrow> thrown + 'a list" where
  "collect [] = Inr []"
| "collect (m # ms) = andThen m (\<lambda>x. andThen (collect ms) (\<lambda>xs. Inr (x # xs)))"

text \<open>ToBoolean.\<close>

fun truthy :: "jsval \<Rightarrow> bool" where
  "truthy JUndefined = False"
| "truthy JNull = False"
| "truthy (JBool b) = b"
| "truthy (JNumber NaN) = False"
| "truthy (JNumber (Finite r)) = (r \<noteq> 0)"
| "truthy (JNumber PosInfinity) = True"
| "truthy (JNumber NegInfinity) = True"
| "truthy (JString s) = (s \<noteq> [])"
| "truthy (JArray xs) = True"
| "truthy (JObject ps) = True"

text \<open>The operator \<^verbatim>\<open>a || b\<close> on values.\<close>

definition js_or :: "jsval \<Rightarrow> jsval \<Rightarrow> jsval" where
  "js_or a b = (if truthy a then a else b)"

text \<open>
  The messages of the TypeErrors the engine raises (the text is V8's; the catch
  handlers pass it on unchanged).
\<close>

definition cannotRead :: "string \<Rightarrow> string \<Rightarrow> thrown" where
  "cannotRead what key =
     Error (''Cannot read properties of '' @ what @ '' (reading '' @ [CHR 0x27] @ key @ [CHR 0x27] @ '')'')"

definition notAFunction :: "string \<Rightarrow> thrown" where
  "notAFunction what = Error (what @ '' is not a function'')"

text \<open>
  Property access \<^verbatim>\<open>v.key\<close> for a key that is neither an array index nor a
  property of a built-in prototype other than \<^verbatim>\<open>length\<close>. \<open>lookup\<close> is the
  value of the property for a value other than \<^verbatim>\<open>undefined\<close> and \<^verbatim>\<open>null\<close>: an
  object gives its own property, an array and a string know their \<^verbatim>\<open>length\<close>,
  everything else gives \<^verbatim>\<open>undefined\<close>. Reading a property of \<^verbatim>\<open>undefined\<close> or
  \<^verbatim>\<open>null\<close> throws.
\<close>

definition lookup :: "jsval \<Rightarrow> string \<Rightarrow> jsval" where
  "lookup v key =
     (case v of
        JObject ps \<Rightarrow> (case map_of ps key of None \<Rightarrow> JUndefined | Some x \<Rightarrow> x)
      | JArray xs \<Rightarrow>
          (if key = ''length'' then JNumber (Finite (real (length xs))) else JUndefined)
      | JString s \<Rightarrow>
          (if key = ''length'' then JNumber (Finite (real (length s))) else JUndefined)
      | _ \<Rightarrow> JUndefined)"

definition getProp :: "jsval \<Rightarrow> string \<Rightarrow> thrown + jsval" where
  "getProp v key =
     (case v of
        JUndefined \<Rightarrow> Inl (cannotRead ''undefined'' key)
      | JNull \<Rightarrow> Inl (cannotRead ''null'' key)
      | _ \<Rightarrow> Inr (lookup v key))"

text \<open>Element access \<^verbatim>\<open>v[0]\<close>.\<close>

definition getIndex0 :: "jsval \<Rightarrow> thrown + jsval" where
  "getIndex0 v =
     (case v of
        JUndefined \<Rightarrow> Inl (cannotRead ''undefined'' ''0'')
      | JNull \<Rightarrow> Inl (cannotRead ''null'' ''0'')
      | JObject ps \<Rightarrow> Inr (case map_of ps ''0'' of None \<Rightarrow> JUndefined | Some x \<Rightarrow> x)
      | JArray xs \<Rightarrow> Inr (case xs of [] \<Rightarrow> JUndefined | x # rest \<Rightarrow> x)
      | JString s \<Rightarrow> Inr (case s of [] \<Rightarrow> JUndefined | c # rest \<Rightarrow> JString [c])
      | JBool b \<Rightarrow> Inr JUndefined
      | JNumber n \<Rightarrow> Inr JUndefined)"

text \<open>The comparison \<^verbatim>\<open>v === 0\<close>.\<close>

definition strictEqZero :: "jsval \<Rightarrow> bool" where
  "strictEqZero v = (case v of JNumber (Finite r) \<Rightarrow> r = 0 | _ \<Rightarrow> False)"

text \<open>
  ToString, as a template literal and \<^verbatim>\<open>parseFloat\<close> apply it to a value. The
  rendering of a number is the engine's and is a parameter. An array is the join of
  its elements, \<^verbatim>\<open>undefined\<close> and \<^verbatim>\<open>null\<close> among them rendered empty. An object
  is \<^verbatim>\<open>[object Object]\<close> by the method it inherits; an own property
  \<^verbatim>\<open>toString\<close> of a payload is never a function, and the conversion then
  throws a TypeError (the \<^verbatim>\<open>valueOf\<close> it falls back to gives no primitive).
\<close>

definition cannotConvert :: thrown where
  "cannotConvert = Error ''Cannot convert object to primitive value''"

fun joinComma :: "string list \<Rightarrow> string" where
  "joinComma [] = []"
| "joinComma [s] = s"
| "joinComma (s # t # rest) = s @ '','' @ joinComma (t # rest)"

fun toStringJS :: "(number \<Rightarrow> string) \<Rightarrow> jsval \<Rightarrow> thrown + string" where
  "toStringJS f JUndefined = Inr ''undefined''"
| "toStringJS f JNull = Inr ''null''"
| "toStringJS f (JBool b) = Inr (if b then ''true'' else ''false'')"
| "toStringJS f (JNumber n) = Inr (f n)"
| "toStringJS f (JString s) = Inr s"
| "toStringJS f (JArray xs) =
     andThen
       (collect (map (\<lambda>x. if x = JUndefined then Inr []
                          else if x = JNull then Inr []
                          else toStringJS f x) xs))
       (\<lambda>parts. Inr (joinComma parts))"
| "toStringJS f (JObject ps) =
     (case map_of ps ''toString'' of
        None \<Rightarrow> Inr ''[object Object]''
      | Some v \<Rightarrow> Inl cannotConvert)"

text \<open>
  \<^verbatim>\<open>String.prototype.trim\<close>: among the code units below \<open>0x100\<close>, the white space
  and line terminators are tab, line feed, vertical tab, form feed, carriage return,
  space and the no-break space.
\<close>

definition isWhiteSpace :: "char \<Rightarrow> bool" where
  "isWhiteSpace c =
     (c = CHR 0x09 \<or> c = CHR 0x0A \<or> c = CHR 0x0B \<or> c = CHR 0x0C \<or> c = CHR 0x0D
        \<or> c = CHR 0x20 \<or> c = CHR 0xA0)"

definition trim :: "string \<Rightarrow> string" where
  "trim s = rev (dropWhile isWhiteSpace (rev (dropWhile isWhiteSpace s)))"

text \<open>\<^verbatim>\<open>s.endsWith(suffix)\<close> and \<^verbatim>\<open>s.slice(0, -n)\<close> for \<open>n > 0\<close>.\<close>

definition endsWith :: "string \<Rightarrow> string \<Rightarrow> bool" where
  "endsWith s suffix =
     (length suffix \<le> length s \<and> drop (length s - length suffix) s = suffix)"

definition sliceDropLast :: "string \<Rightarrow> nat \<Rightarrow> string" where
  "sliceDropLast s n = take (length s - n) s"

text \<open>Whether a string contains another (\<^verbatim>\<open>s.includes(part)\<close>).\<close>

fun containsString :: "string \<Rightarrow> string \<Rightarrow> bool" where
  "containsString [] part = (part = [])"
| "containsString (c # s) part = (take (length part) (c # s) = part \<or> containsString s part)"

section \<open>County suffix\<close>

text \<open>\<^verbatim>\<open>COUNTY_SUFFIX\<close> and \<^verbatim>\<open>removeCountySuffix\<close> (lines 93 to 97 of the source).\<close>

definition COUNTY_SUFFIX :: string where
  "COUNTY_SUFFIX = '' County''"

definition removeCountySuffix :: "string \<Rightarrow> string" where
  "removeCountySuffix county =
     (if endsWith county COUNTY_SUFFIX
      then sliceDropLast county (length COUNTY_SUFFIX)
      else county)"

section \<open>Data model\<close>

text \<open>
  \<^verbatim>\<open>GeoLocation\<close> and \<^verbatim>\<open>GeocodeResult\<close>. The address fields of a result are
  declared \<^verbatim>\<open>string\<close> in the source; the Nominatim adapter fills them from an
  untyped payload, so the model keeps them as values (\<open>JString s\<close> for a string).
  The field \<^verbatim>\<open>zip\<close> is \<open>zip_code\<close> here, \<open>zip\<close> being a list function of HOL.
\<close>

record GeoLocation =
  lat :: number
  long :: number

text \<open>
  The objects of the Google Maps client the adapter reads
  (\<^verbatim>\<open>google.maps.GeocoderResult\<close>, its address components and the accessors
  \<^verbatim>\<open>lat()\<close> and \<^verbatim>\<open>lng()\<close> of \<^verbatim>\<open>geometry.location\<close>). The values of
  \<^verbatim>\<open>google.maps.GeocoderStatus\<close> are strings, the value of \<^verbatim>\<open>OK\<close> being
  \<^verbatim>\<open>"OK"\<close>.
\<close>

record LatLng =
  latlng_lat :: number
  latlng_lng :: number

record GeocoderAddressComponent =
  long_name :: string
  short_name :: string
  types :: "string list"

record GeocoderResult =
  address_components :: "GeocoderAddressComponent list"
  formatted_address :: string
  geometry_location :: LatLng

datatype GeocoderRequest =
    AddressRequest string
  | LocationRequest number number

record GeocodeResponse =
  results :: "GeocoderResult list option"
  status :: string

definition GeocoderStatus_OK :: string where
  "GeocoderStatus_OK = ''OK''"

datatype rawPayload = GoogleRaw GeocoderResult | NominatimRaw jsval

record GeocodeResult =
  nation :: jsval
  province :: jsval
  county :: jsval
  town :: jsval
  borough :: jsval
  street :: jsval
  zip_code :: jsval
  location :: GeoLocation
  rawResponse :: rawPayload

text \<open>What a geocoding method returns: \<^verbatim>\<open>GeocodeResult | string\<close>.\<close>

datatype reply = Message string | Result GeocodeResult

datatype provider = google | nominatim

definition providerString :: "provider \<Rightarrow> string" where
  "providerString p = (case p of google \<Rightarrow> ''google'' | nominatim \<Rightarrow> ''nominatim'')"

section \<open>The environment\<close>

text \<open>
  The collaborators of the module: the Google Maps geocoding client, \<^verbatim>\<open>fetch\<close>
  with the response's \<^verbatim>\<open>ok\<close>, \<^verbatim>\<open>status\<close> and \<^verbatim>\<open>json()\<close>, and the built-ins
  \<^verbatim>\<open>encodeURIComponent\<close>, \<^verbatim>\<open>parseFloat\<close> and the rendering of a number in a
  template literal. Each call either gives a value (\<open>Inr\<close>) or throws, which for an
  awaited promise is a rejection (\<open>Inl\<close>). \<open>newGoogleGeocoder\<close> is the expression
  \<^verbatim>\<open>new google.maps.Geocoder()\<close>: it gives a client when the Google Maps library is
  loaded and throws a ReferenceError when it is not. \<open>parseFloat\<close> is the parsing of
  a string; the built-in first converts its argument to a string (\<open>jsParseFloat\<close>).
\<close>

record HttpResponse =
  ok :: bool
  http_status :: number
  json :: "thrown + jsval"

record world =
  newGoogleGeocoder :: "thrown + unit"
  geocoder_geocode :: "GeocoderRequest \<Rightarrow> thrown + GeocodeResponse"
  fetch :: "string \<Rightarrow> thrown + HttpResponse"
  encodeURIComponent :: "string \<Rightarrow> thrown + string"
  parseFloat :: "string \<Rightarrow> number"
  numberToString :: "number \<Rightarrow> string"

definition jsParseFloat :: "world \<Rightarrow> jsval \<Rightarrow> thrown + number" where
  "jsParseFloat w v = andThen (toStringJS (numberToString w) v) (\<lambda>s. Inr (parseFloat w s))"

text \<open>
  What a call does besides returning: the provider requests it issues and the lines
  it writes to the console, in order.
\<close>

datatype logArg = NoArg | StatusArg string | ErrorArg thrown

datatype event =
    GoogleGeocode GeocoderRequest
  | HttpGet string
  | ConsoleLog "GeocoderResult option"
  | ConsoleError string logArg

type_synonym 'a io = "event list \<times> (thrown + 'a)"

definition isRequest :: "event \<Rightarrow> bool" where
  "isRequest ev =
     (case ev of GoogleGeocode r \<Rightarrow> True | HttpGet u \<Rightarrow> True
      | ConsoleLog x \<Rightarrow> False | ConsoleError m a \<Rightarrow> False)"

text \<open>
  \<^verbatim>\<open>logError\<close> (lines 99 to 101) writes one line to the console;
  \<^verbatim>\<open>promisifyGeocode\<close> (lines 103 to 109) issues one request to the Google client
  and gives its answer.
\<close>

definition logError :: "string \<Rightarrow> logArg \<Rightarrow> event list" where
  "logError message error = [ConsoleError message error]"

definition promisifyGeocode :: "world \<Rightarrow> GeocoderRequest \<Rightarrow> GeocodeResponse io" where
  "promisifyGeocode w request = ([GoogleGeocode request], geocoder_geocode w request)"

section \<open>The Geocoder\<close>

text \<open>
  The constructor's argument: a string, or an object whose \<^verbatim>\<open>lat\<close> and \<^verbatim>\<open>long\<close>
  may be missing (\<open>None\<close> for a property that reads as \<^verbatim>\<open>undefined\<close>).
\<close>

record LocationArg =
  lat_arg :: "number option"
  long_arg :: "number option"

datatype addressOrLocation = AddressArg string | ObjectArg LocationArg

text \<open>
  The two private fields of the class and its constructor (lines 112 to 138); a
  thrown Error is \<open>Inl\<close>.
\<close>

record Geocoder =
  this_address :: "string option"
  this_location :: "GeoLocation option"

definition newGeocoder :: "addressOrLocation \<Rightarrow> thrown + Geocoder" where
  "newGeocoder arg =
     (case arg of
        AddressArg s \<Rightarrow> Inr \<lparr>this_address = Some s, this_location = None\<rparr>
      | ObjectArg obj \<Rightarrow>
          (case lat_arg obj of
             None \<Rightarrow> Inl (Error ''Invalid location object: must contain lat and long properties'')
           | Some la \<Rightarrow>
               (case long_arg obj of
                  None \<Rightarrow> Inl (Error ''Invalid location object: must contain lat and long properties'')
                | Some lo \<Rightarrow>
                    Inr \<lparr>this_address = None, this_location = Some \<lparr>lat = la, long = lo\<rparr>\<rparr>)))"

subsection \<open>Google adapter\<close>

text \<open>
  \<^verbatim>\<open>geocodeWithGoogle\<close> (lines 147 to 198) in five parts: the construction of the
  client (line 148), which comes first and may throw, the request for the
  held input or the mode mismatch message (\<open>googleRequestFor\<close>, lines 151 to 167),
  the call of the client (line 169), the handling of its answer (\<open>googleRespond\<close>,
  lines 171 to 197) and the normalisation of the first result (\<open>googleResult\<close>,
  lines 173 to 192).

  The fold over the address components: every type tag of a component is set to the
  component's long name, later components overwriting earlier ones.
\<close>

definition googleComponents :: "GeocoderResult \<Rightarrow> (string \<rightharpoonup> string)" where
  "googleComponents r =
     foldl (\<lambda>acc comp. foldl (\<lambda>a ty. a(ty \<mapsto> long_name comp)) acc (types comp))
       Map.empty (address_components r)"

text \<open>\<^verbatim>\<open>components.key || ''\<close> on a record of strings.\<close>

definition orEmpty :: "string option \<Rightarrow> string" where
  "orEmpty v = (case v of None \<Rightarrow> [] | Some s \<Rightarrow> (if s \<noteq> [] then s else []))"

definition googleResult :: "GeocoderResult \<Rightarrow> GeocodeResult" where
  "googleResult r =
     (let components = googleComponents r in
      \<lparr>nation = JString (orEmpty (components ''country'')),
       province = JString (orEmpty (components ''administrative_area_level_1'')),
       county = JString (removeCountySuffix (orEmpty (components ''administrative_area_level_2''))),
       town = JString (orEmpty (components ''locality'')),
       borough = JString (orEmpty (components ''sublocality_level_1'')),
       street = JString (orEmpty (components ''street_number'') @ '' '' @ orEmpty (components ''route'')),
       zip_code = JString (orEmpty (components ''postal_code'')),
       location = \<lparr>lat = latlng_lat (geometry_location r), long = latlng_lng (geometry_location r)\<rparr>,
       rawResponse = GoogleRaw r\<rparr>)"

text \<open>\<^verbatim>\<open>isReverse ? 'Reverse' : 'Forward'\<close>.\<close>

definition operationName :: "bool \<Rightarrow> string" where
  "operationName isReverse = (if isReverse then ''Reverse'' else ''Forward'')"

definition googleRequestFor :: "Geocoder \<Rightarrow> bool \<Rightarrow> string + GeocoderRequest" where
  "googleRequestFor this isReverse =
     (if isReverse then
        (case this_location this of
           None \<Rightarrow> Inl ''No location coordinates provided for reverse geocoding''
         | Some loc \<Rightarrow> Inr (LocationRequest (lat loc) (long loc)))
      else
        (case this_address this of
           None \<Rightarrow> Inl ''No address provided for forward geocoding''
         | Some a \<Rightarrow>
             (if a = [] then Inl ''No address provided for forward geocoding''
              else Inr (AddressRequest a))))"

text \<open>
  The test \<^verbatim>\<open>status === google.maps.GeocoderStatus.OK && results\<close> holds for every
  array, the empty one too. The branch logs \<^verbatim>\<open>results[0]\<close> and reads
  \<^verbatim>\<open>results[0].geometry\<close>, which throws a TypeError when \<^verbatim>\<open>results[0]\<close> is
  \<^verbatim>\<open>undefined\<close>.
\<close>

definition googleRespond :: "bool \<Rightarrow> GeocodeResponse \<Rightarrow> reply io" where
  "googleRespond isReverse response =
     (if status response = GeocoderStatus_OK \<and> results response \<noteq> None then
        (case results response of
           Some (r # rest) \<Rightarrow> ([ConsoleLog (Some r)], Inr (Result (googleResult r)))
         | _ \<Rightarrow> ([ConsoleLog None], Inl (cannotRead ''undefined'' ''geometry'')))
      else
        (logError (''Google '' @ operationName isReverse @ '' Geocoding failed:'')
           (StatusArg (status response)),
         Inr (Message (''Google '' @ operationName isReverse @ '' Geocoding failed: ''
                @ status response))))"

definition geocodeWithGoogle :: "world \<Rightarrow> Geocoder \<Rightarrow> bool \<Rightarrow> reply io" where
  "geocodeWithGoogle w this isReverse =
     (case newGoogleGeocoder w of
        Inl e \<Rightarrow> ([], Inl e)
      | Inr geocoder \<Rightarrow>
          (case googleRequestFor this isReverse of
             Inl message \<Rightarrow> ([], Inr (Message message))
           | Inr request \<Rightarrow>
               (case promisifyGeocode w request of
                  (tr, Inl e) \<Rightarrow> (tr, Inl e)
                | (tr, Inr response) \<Rightarrow>
                    (case googleRespond isReverse response of
                       (tr', out) \<Rightarrow> (tr @ tr', out)))))"

subsection \<open>Nominatim adapter\<close>

text \<open>
  \<^verbatim>\<open>geocodeWithNominatim\<close> (lines 207 to 278): the body of its \<^verbatim>\<open>try\<close> block is
  \<open>nominatimTry\<close> (lines 209 to 272), with the search of forward mode in
  \<open>nominatimForward\<close> (lines 228 to 245), the reverse lookup both modes end with in
  \<open>nominatimReverse\<close> (lines 248 to 256) and the object it returns in
  \<open>nominatimResult\<close> (lines 257 to 272); the \<^verbatim>\<open>catch\<close> block (lines 273 to 277) is
  in \<open>geocodeWithNominatim\<close> itself.

  The steps that may throw are sequenced with \<open>andThen\<close>.
\<close>

text \<open>
  The call \<^verbatim>\<open>removeCountySuffix(v)\<close> on an untyped value: the function calls
  \<^verbatim>\<open>county.endsWith\<close>, which only a string has.
\<close>

definition callRemoveCountySuffix :: "jsval \<Rightarrow> thrown + string" where
  "callRemoveCountySuffix v =
     (case v of
        JString s \<Rightarrow> Inr (removeCountySuffix s)
      | _ \<Rightarrow> Inl (notAFunction ''county.endsWith''))"

definition SEARCH_URL :: string where
  "SEARCH_URL = ''https://nominatim.openstreetmap.org/search?format=json&q=''"

definition REVERSE_URL :: string where
  "REVERSE_URL = ''https://nominatim.openstreetmap.org/reverse?format=json&lat=''"

definition reverseUrl :: "world \<Rightarrow> number \<Rightarrow> number \<Rightarrow> string" where
  "reverseUrl w la lo = REVERSE_URL @ numberToString w la @ ''&lon='' @ numberToString w lo"

text \<open>
  The object literal the adapter returns, its properties evaluated in the order of
  the source; \<open>forwardData\<close> is \<^verbatim>\<open>null\<close> in reverse mode.
\<close>

definition nominatimResult :: "world \<Rightarrow> jsval \<Rightarrow> jsval \<Rightarrow> thrown + GeocodeResult" where
  "nominatimResult w forwardData reverseData =
     andThen (getProp reverseData ''address'') (\<lambda>a.
     let address = js_or a (JObject []) in
     andThen (getProp address ''country'') (\<lambda>country.
     andThen (getProp address ''state'') (\<lambda>state.
     andThen (getProp address ''county'') (\<lambda>cnty.
     andThen (callRemoveCountySuffix (js_or cnty (JString []))) (\<lambda>countyName.
     andThen (getProp address ''town'') (\<lambda>twn.
     andThen (if truthy twn then Inr twn
              else andThen (getProp address ''city'') (\<lambda>city. Inr (js_or city (JString []))))
       (\<lambda>townName.
     andThen (getProp address ''borough'') (\<lambda>brgh.
     andThen (getProp address ''house_number'') (\<lambda>house_number.
     andThen (toStringJS (numberToString w) (js_or house_number (JString []))) (\<lambda>number.
     andThen (getProp address ''road'') (\<lambda>road.
     andThen (toStringJS (numberToString w) (js_or road (JString []))) (\<lambda>roadName.
     andThen (getProp address ''postcode'') (\<lambda>postcode.
     andThen (getProp reverseData ''lat'') (\<lambda>rlat.
     andThen (jsParseFloat w rlat) (\<lambda>la.
     andThen (getProp reverseData ''lon'') (\<lambda>rlon.
     andThen (jsParseFloat w rlon) (\<lambda>lo.
     andThen (if truthy forwardData then getIndex0 forwardData else Inr reverseData) (\<lambda>raw.
     Inr \<lparr>nation = js_or country (JString []),
          province = js_or state (JString []),
          county = JString countyName,
          town = townName,
          borough = js_or brgh (JString []),
          street = JString (trim (number @ '' '' @ roadName)),
          zip_code = js_or postcode (JString []),
          location = \<lparr>lat = la, long = lo\<rparr>,
          rawResponse = NominatimRaw raw\<rparr>))))))))))))))))))"

text \<open>The second half of the adapter: the lookup at the \<^verbatim>\<open>reverse\<close> endpoint.\<close>

definition nominatimReverse :: "world \<Rightarrow> jsval \<Rightarrow> number \<Rightarrow> number \<Rightarrow> reply io" where
  "nominatimReverse w forwardData la lo =
     (let url = reverseUrl w la lo in
      (case fetch w url of
         Inl e \<Rightarrow> ([HttpGet url], Inl e)
       | Inr reverseResponse \<Rightarrow>
           (if \<not> ok reverseResponse then
              ([HttpGet url],
               Inl (Error (''Reverse geocoding failed: ''
                      @ numberToString w (http_status reverseResponse))))
            else
              (case json reverseResponse of
                 Inl e \<Rightarrow> ([HttpGet url], Inl e)
               | Inr reverseData \<Rightarrow>
                   ([HttpGet url],
                    andThen (nominatimResult w forwardData reverseData) (\<lambda>r. Inr (Result r)))))))"

text \<open>
  \<^verbatim>\<open>parseFloat(forwardData[0].lat)\<close> and \<^verbatim>\<open>parseFloat(forwardData[0].lon)\<close>.
\<close>

definition forwardCoordinates :: "world \<Rightarrow> jsval \<Rightarrow> thrown + (number \<times> number)" where
  "forwardCoordinates w forwardData =
     andThen (getIndex0 forwardData) (\<lambda>hit.
     andThen (getProp hit ''lat'') (\<lambda>hlat.
     andThen (jsParseFloat w hlat) (\<lambda>la.
     andThen (getIndex0 forwardData) (\<lambda>hit'.
     andThen (getProp hit' ''lon'') (\<lambda>hlon.
     andThen (jsParseFloat w hlon) (\<lambda>lo.
     Inr (la, lo)))))))"

text \<open>The first half in forward mode: the lookup at the \<^verbatim>\<open>search\<close> endpoint.\<close>

definition nominatimForward :: "world \<Rightarrow> string \<Rightarrow> reply io" where
  "nominatimForward w a =
     (case encodeURIComponent w (filter (\<lambda>c. c \<noteq> CHR 0x27) a) of
        Inl e \<Rightarrow> ([], Inl e)
      | Inr q \<Rightarrow>
          (let nominatimUrl = SEARCH_URL @ q in
           (case fetch w nominatimUrl of
              Inl e \<Rightarrow> ([HttpGet nominatimUrl], Inl e)
            | Inr response \<Rightarrow>
                (if \<not> ok response then
                   ([HttpGet nominatimUrl],
                    Inl (Error (''Forward geocoding failed: ''
                           @ numberToString w (http_status response))))
                 else
                   (case json response of
                      Inl e \<Rightarrow> ([HttpGet nominatimUrl], Inl e)
                    | Inr forwardData \<Rightarrow>
                        (if \<not> truthy forwardData then
                           (HttpGet nominatimUrl
                             # logError ''Nominatim Forward Geocoding failed: No results found''
                                 NoArg,
                            Inr (Message ''Nominatim Forward Geocoding failed: No results found''))
                         else
                           (case getProp forwardData ''length'' of
                              Inl e \<Rightarrow> ([HttpGet nominatimUrl], Inl e)
                            | Inr len \<Rightarrow>
                                (if strictEqZero len then
                                   (HttpGet nominatimUrl
                                     # logError ''Nominatim Forward Geocoding failed: No results found''
                                         NoArg,
                                    Inr (Message ''Nominatim Forward Geocoding failed: No results found''))
                                 else
                                   (case forwardCoordinates w forwardData of
                                      Inl e \<Rightarrow> ([HttpGet nominatimUrl], Inl e)
                                    | Inr (la, lo) \<Rightarrow>
                                        (case nominatimReverse w forwardData la lo of
                                           (tr, out) \<Rightarrow> (HttpGet nominatimUrl # tr, out)))))))))))"

text \<open>The body of the adapter's \<^verbatim>\<open>try\<close> block.\<close>

definition nominatimTry :: "world \<Rightarrow> Geocoder \<Rightarrow> bool \<Rightarrow> reply io" where
  "nominatimTry w this isReverse =
     (if isReverse then
        (case this_location this of
           None \<Rightarrow> ([], Inr (Message ''No location coordinates provided for reverse geocoding''))
         | Some loc \<Rightarrow> nominatimReverse w JNull (lat loc) (long loc))
      else
        (case this_address this of
           None \<Rightarrow> ([], Inr (Message ''No address provided for forward geocoding''))
         | Some a \<Rightarrow>
             (if a = [] then ([], Inr (Message ''No address provided for forward geocoding''))
              else nominatimForward w a)))"

definition geocodeWithNominatim :: "world \<Rightarrow> Geocoder \<Rightarrow> bool \<Rightarrow> reply io" where
  "geocodeWithNominatim w this isReverse =
     (case nominatimTry w this isReverse of
        (tr, Inr r) \<Rightarrow> (tr, Inr r)
      | (tr, Inl error) \<Rightarrow>
          (tr @ logError (''Nominatim '' @ operationName isReverse @ '' Geocoding error:'')
                  (ErrorArg error),
           Inr (Message (''Nominatim '' @ operationName isReverse @ '' Geocoding error: ''
                  @ errorMessage error))))"

subsection \<open>Public operations\<close>

text \<open>
  \<^verbatim>\<open>geocode\<close> (lines 286 to 297) and \<^verbatim>\<open>reverseGeocode\<close> (lines 305 to 316): the
  adapter of the provider, awaited inside \<^verbatim>\<open>try\<close>, and the \<^verbatim>\<open>catch\<close> block.
\<close>

definition geocode :: "world \<Rightarrow> Geocoder \<Rightarrow> provider \<Rightarrow> reply io" where
  "geocode w this p =
     (case (if p = google then geocodeWithGoogle w this False
            else geocodeWithNominatim w this False) of
        (tr, Inr r) \<Rightarrow> (tr, Inr r)
      | (tr, Inl error) \<Rightarrow>
          (tr @ logError (''Forward Geocoding error with '' @ providerString p) (ErrorArg error),
           Inr (Message (''Forward Geocoding error with '' @ providerString p @ '': ''
                  @ errorMessage error))))"

definition reverseGeocode :: "world \<Rightarrow> Geocoder \<Rightarrow> provider \<Rightarrow> reply io" where
  "reverseGeocode w this p =
     (case (if p = google then geocodeWithGoogle w this True
            else geocodeWithNominatim w this True) of
        (tr, Inr r) \<Rightarrow> (tr, Inr r)
      | (tr, Inl error) \<Rightarrow>
          (tr @ logError (''Reverse Geocoding error with '' @ providerString p) (ErrorArg error),
           Inr (Message (''Reverse Geocoding error with '' @ providerString p @ '': ''
                  @ errorMessage error))))"

section \<open>Sample inputs\<close>

text \<open>
  Concrete payloads and environments on which the operations are evaluated below: a
  Nominatim search hit and reverse lookup for the White House, a Google result with
  a route and no street number, and a Google result for a city, with neither a
  street number nor a route.
\<close>

definition sampleAddress :: jsval where
  "sampleAddress =
     JObject [(''house_number'', JString ''1600''),
              (''road'', JString ''Pennsylvania Avenue NW''),
              (''city'', JString ''Washington''),
              (''county'', JString ''Loudoun County''),
              (''country'', JString ''United States'')]"

definition sampleReverseData :: jsval where
  "sampleReverseData =
     JObject [(''lat'', JString ''38.9''), (''lon'', JString ''-77''),
              (''address'', sampleAddress)]"

definition sampleHit :: jsval where
  "sampleHit =
     JObject [(''lat'', JString ''38.9''), (''lon'', JString ''-77''),
              (''display_name'', JString ''White House'')]"

definition sampleForwardData :: jsval where
  "sampleForwardData = JArray [sampleHit]"

text \<open>
  \<^verbatim>\<open>parseFloat\<close> and the rendering of a number, on the strings and numbers of
  the samples: the two coordinates and the HTTP status 200. No other argument occurs
  in an evaluation below.
\<close>

definition sampleParseFloat :: "string \<Rightarrow> number" where
  "sampleParseFloat s =
     (if s = ''38.9'' then Finite 38.9
      else if s = ''-77'' then Finite (- 77)
      else NaN)"

definition sampleNumberToString :: "number \<Rightarrow> string" where
  "sampleNumberToString n =
     (if n = Finite 38.9 then ''38.9''
      else if n = Finite (- 77) then ''-77''
      else if n = Finite 200 then ''200''
      else ''NaN'')"

definition routeOnlyResult :: GeocoderResult where
  "routeOnlyResult =
     \<lparr>address_components =
        [\<lparr>long_name = ''Main Street'', short_name = ''Main St'', types = [''route'']\<rparr>,
         \<lparr>long_name = ''Loudoun County'', short_name = ''Loudoun County'',
          types = [''administrative_area_level_2'', ''political'']\<rparr>],
      formatted_address = ''Main Street'',
      geometry_location = \<lparr>latlng_lat = Finite 38.9, latlng_lng = Finite (- 77)\<rparr>\<rparr>"

definition cityResult :: GeocoderResult where
  "cityResult =
     \<lparr>address_components =
        [\<lparr>long_name = ''Washington'', short_name = ''Washington'',
          types = [''locality'', ''political'']\<rparr>,
         \<lparr>long_name = ''District of Columbia'', short_name = ''DC'',
          types = [''administrative_area_level_1'', ''political'']\<rparr>,
         \<lparr>long_name = ''United States'', short_name = ''US'',
          types = [''country'', ''political'']\<rparr>],
      formatted_address = ''Washington, DC, USA'',
      geometry_location = \<lparr>latlng_lat = Finite 38.9, latlng_lng = Finite (- 77)\<rparr>\<rparr>"

text \<open>
  \<^verbatim>\<open>encodeURIComponent\<close> on the strings of the model: the unreserved characters
  stand for themselves, every other code unit is the percent-encoding of its UTF-8
  bytes, one byte below \<open>0x80\<close> and two from there on.
\<close>

definition hexDigit :: "nat \<Rightarrow> char" where
  "hexDigit n = ''0123456789ABCDEF'' ! n"

definition percentByte :: "nat \<Rightarrow> string" where
  "percentByte b = [CHR ''%'', hexDigit (b div 16), hexDigit (b mod 16)]"

definition isUnreserved :: "char \<Rightarrow> bool" where
  "isUnreserved c =
     (c \<in> set ''ABCDEFGHIJKLMNOPQRSTUVWXYZabcdefghijklmnopqrstuvwxyz0123456789-_.!~*()''
      \<or> c = CHR 0x27)"

definition encodeUnit :: "char \<Rightarrow> string" where
  "encodeUnit c =
     (if isUnreserved c then [c]
      else if (of_char c :: nat) < 128 then percentByte (of_char c)
      else percentByte (192 + of_char c div 64) @ percentByte (128 + of_char c mod 64))"

definition sampleEncodeURIComponent :: "string \<Rightarrow> thrown + string" where
  "sampleEncodeURIComponent s = Inr (concat (map encodeUnit s))"

text \<open>
  \<open>sampleWorld results st\<close>: the Google Maps library is loaded and its client
  answers every request with \<open>results\<close> and \<open>st\<close>; the search endpoint answers the
  query \<^verbatim>\<open>White House\<close> with the sample hit and every other query with an empty
  array; the reverse endpoint answers the hit's coordinates with the sample lookup;
  any other URL is a network failure.
\<close>

definition sampleFetch :: "string \<Rightarrow> thrown + HttpResponse" where
  "sampleFetch url =
     (if url = SEARCH_URL @ ''White%20House'' then
        Inr \<lparr>ok = True, http_status = Finite 200, json = Inr sampleForwardData\<rparr>
      else if take (length SEARCH_URL) url = SEARCH_URL then
        Inr \<lparr>ok = True, http_status = Finite 200, json = Inr (JArray [])\<rparr>
      else if url = REVERSE_URL @ ''38.9&lon=-77'' then
        Inr \<lparr>ok = True, http_status = Finite 200, json = Inr sampleReverseData\<rparr>
      else Inl (Error ''Failed to fetch''))"

definition sampleWorld :: "GeocoderResult list option \<Rightarrow> string \<Rightarrow> world" where
  "sampleWorld rs st =
     \<lparr>newGoogleGeocoder = Inr (),
      geocoder_geocode = (\<lambda>request. Inr \<lparr>results = rs, status = st\<rparr>),
      fetch = sampleFetch,
      encodeURIComponent = sampleEncodeURIComponent,
      parseFloat = sampleParseFloat,
      numberToString = sampleNumberToString\<rparr>"

text \<open>
  The same environment without the Google Maps library: the name \<^verbatim>\<open>google\<close> is
  not defined, and evaluating \<^verbatim>\<open>new google.maps.Geocoder()\<close> throws a
  ReferenceError.
\<close>

definition unloadedWorld :: world where
  "unloadedWorld =
     \<lparr>newGoogleGeocoder = Inl (Error ''google is not defined''),
      geocoder_geocode = (\<lambda>request. Inl (Error ''google is not defined'')),
      fetch = sampleFetch,
      encodeURIComponent = sampleEncodeURIComponent,
      parseFloat = sampleParseFloat,
      numberToString = sampleNumberToString\<rparr>"

text \<open>What the forward and the reverse lookup of the sample give.\<close>

definition sampleForwardResult :: GeocodeResult where
  "sampleForwardResult =
     \<lparr>nation = JString ''United States'', province = JString [],
      county = JString ''Loudoun'', town = JString ''Washington'',
      borough = JString [],
      street = JString ''1600 Pennsylvania Avenue NW'',
      zip_code = JString [],
      location = \<lparr>lat = Finite 38.9, long = Finite (- 77)\<rparr>,
      rawResponse = NominatimRaw sampleHit\<rparr>"

definition sampleReverseResult :: GeocodeResult where
  "sampleReverseResult =
     \<lparr>nation = JString ''United States'', province = JString [],
      county = JString ''Loudoun'', town = JString ''Washington'',
      borough = JString [],
      street = JString ''1600 Pennsylvania Avenue NW'',
      zip_code = JString [],
      location = \<lparr>lat = Finite 38.9, long = Finite (- 77)\<rparr>,
      rawResponse = NominatimRaw sampleReverseData\<rparr>"

text \<open>An environment in which the Google client throws and no URL can be reached.\<close>

definition failingWorld :: world where
  "failingWorld =
     \<lparr>newGoogleGeocoder = Inr (),
      geocoder_geocode = (\<lambda>request. Inl (Error ''InvalidValueError'')),
      fetch = (\<lambda>url. Inl (Error ''Failed to fetch'')),
      encodeURIComponent = sampleEncodeURIComponent,
      parseFloat = sampleParseFloat,
      numberToString = sampleNumberToString\<rparr>"

definition addressGeocoder :: "string \<Rightarrow> Geocoder" where
  "addressGeocoder a = \<lparr>this_address = Some a, this_location = None\<rparr>"

definition locationGeocoder :: "number \<Rightarrow> number \<Rightarrow> Geocoder" where
  "locationGeocoder la lo = \<lparr>this_address = None, this_location = Some \<lparr>lat = la, long = lo\<rparr>\<rparr>"

section \<open>Basic facts\<close>

lemma andThen_Inr: "andThen (Inr x) f = f x"
  by (simp add: andThen_def)

lemma andThen_Inl: "andThen (Inl e) f = Inl e"
  by (simp add: andThen_def)

lemma andThen_eq_Inr: "(andThen m f = Inr y) = (\<exists>x. m = Inr x \<and> f x = Inr y)"
  by (cases m) (simp_all add: andThen_def)

lemma getProp_eq_Inr:
  "(getProp v key = Inr x) = (v \<noteq> JUndefined \<and> v \<noteq> JNull \<and> x = lookup v key)"
  by (cases v) (auto simp: getProp_def)

lemma getProp_truthy: "truthy v \<Longrightarrow> getProp v key = Inr (lookup v key)"
  by (cases v) (auto simp: getProp_def)

lemma truthy_js_or_object: "truthy (js_or a (JObject ps))"
  by (simp add: js_or_def)

lemma callRemoveCountySuffix_eq_Inr:
  "(callRemoveCountySuffix v = Inr n) = (\<exists>s. v = JString s \<and> n = removeCountySuffix s)"
  by (cases v) (auto simp: callRemoveCountySuffix_def)

lemma jsParseFloat_eq_Inr:
  "(jsParseFloat w v = Inr n)
     = (\<exists>s. toStringJS (numberToString w) v = Inr s \<and> n = parseFloat w s)"
  by (auto simp: jsParseFloat_def andThen_eq_Inr)

section \<open>Facts about the Nominatim adapter\<close>

lemma nominatimResult_eq_Inr:
  "(nominatimResult w fd rd = Inr res) =
     (\<exists>a c hn ro slat slon raw.
        getProp rd ''address'' = Inr a
      \<and> js_or (lookup (js_or a (JObject [])) ''county'') (JString []) = JString c
      \<and> toStringJS (numberToString w)
           (js_or (lookup (js_or a (JObject [])) ''house_number'') (JString [])) = Inr hn
      \<and> toStringJS (numberToString w)
           (js_or (lookup (js_or a (JObject [])) ''road'') (JString [])) = Inr ro
      \<and> toStringJS (numberToString w) (lookup rd ''lat'') = Inr slat
      \<and> toStringJS (numberToString w) (lookup rd ''lon'') = Inr slon
      \<and> (if truthy fd then getIndex0 fd else Inr rd) = Inr raw
      \<and> res = \<lparr>nation = js_or (lookup (js_or a (JObject [])) ''country'') (JString []),
          province = js_or (lookup (js_or a (JObject [])) ''state'') (JString []),
          county = JString (removeCountySuffix c),
          town = js_or (lookup (js_or a (JObject [])) ''town'')
                   (js_or (lookup (js_or a (JObject [])) ''city'') (JString [])),
          borough = js_or (lookup (js_or a (JObject [])) ''borough'') (JString []),
          street = JString (trim (hn @ '' '' @ ro)),
          zip_code = js_or (lookup (js_or a (JObject [])) ''postcode'') (JString []),
          location = \<lparr>lat = parseFloat w slat, long = parseFloat w slon\<rparr>,
          rawResponse = NominatimRaw raw\<rparr>)"
proof (cases "getProp rd ''address''")
  case (Inl e)
  then show ?thesis by (simp add: nominatimResult_def andThen_Inl)
next
  case (Inr a)
  then have rd: "getProp rd key = Inr (lookup rd key)" for key
    by (simp add: getProp_eq_Inr)
  from Inr have a': "lookup rd ''address'' = a"
    by (simp add: getProp_eq_Inr)
  have ad: "getProp (js_or x (JObject [])) key = Inr (lookup (js_or x (JObject [])) key)" for key x
    by (rule getProp_truthy) (rule truthy_js_or_object)
  show ?thesis
    unfolding nominatimResult_def Let_def rd ad andThen_Inr a'
    by (auto simp: andThen_eq_Inr callRemoveCountySuffix_eq_Inr jsParseFloat_eq_Inr
        js_or_def [of "lookup _ ''town''"] split: if_splits)
qed

lemma nominatimResult_Inr:
  assumes "nominatimResult w fd reverseData = Inr res"
  obtains addr c hn ro rlat rlon raw where
    "getProp reverseData ''address'' = Inr addr"
    "js_or (lookup (js_or addr (JObject [])) ''county'') (JString []) = JString c"
    "toStringJS (numberToString w)
       (js_or (lookup (js_or addr (JObject [])) ''house_number'') (JString [])) = Inr hn"
    "toStringJS (numberToString w)
       (js_or (lookup (js_or addr (JObject [])) ''road'') (JString [])) = Inr ro"
    "toStringJS (numberToString w) (lookup reverseData ''lat'') = Inr rlat"
    "toStringJS (numberToString w) (lookup reverseData ''lon'') = Inr rlon"
    "(if truthy fd then getIndex0 fd else Inr reverseData) = Inr raw"
    "res = \<lparr>nation = js_or (lookup (js_or addr (JObject [])) ''country'') (JString []),
          province = js_or (lookup (js_or addr (JObject [])) ''state'') (JString []),
          county = JString (removeCountySuffix c),
          town = js_or (lookup (js_or addr (JObject [])) ''town'')
                   (js_or (lookup (js_or addr (JObject [])) ''city'') (JString [])),
          borough = js_or (lookup (js_or addr (JObject [])) ''borough'') (JString []),
          street = JString (trim (hn @ '' '' @ ro)),
          zip_code = js_or (lookup (js_or addr (JObject [])) ''postcode'') (JString []),
          location = \<lparr>lat = parseFloat w rlat, long = parseFloat w rlon\<rparr>,
          rawResponse = NominatimRaw raw\<rparr>"
  using assms unfolding nominatimResult_eq_Inr by blast

lemma nominatimResult_total:
  assumes "getProp reverseData ''address'' = Inr addr"
    and "js_or (lookup (js_or addr (JObject [])) ''county'') (JString []) = JString c"
    and "toStringJS (numberToString w)
       (js_or (lookup (js_or addr (JObject [])) ''house_number'') (JString [])) = Inr hn"
    and "toStringJS (numberToString w)
       (js_or (lookup (js_or addr (JObject [])) ''road'') (JString [])) = Inr ro"
    and "toStringJS (numberToString w) (lookup reverseData ''lat'') = Inr rlat"
    and "toStringJS (numberToString w) (lookup reverseData ''lon'') = Inr rlon"
    and "(if truthy fd then getIndex0 fd else Inr reverseData) = Inr raw"
  shows "nominatimResult w fd reverseData = Inr \<lparr>nation = js_or (lookup (js_or addr (JObject [])) ''country'') (JString []),
          province = js_or (lookup (js_or addr (JObject [])) ''state'') (JString []),
          county = JString (removeCountySuffix c),
          town = js_or (lookup (js_or addr (JObject [])) ''town'')
                   (js_or (lookup (js_or addr (JObject [])) ''city'') (JString [])),
          borough = js_or (lookup (js_or addr (JObject [])) ''borough'') (JString []),
          street = JString (trim (hn @ '' '' @ ro)),
          zip_code = js_or (lookup (js_or addr (JObject [])) ''postcode'') (JString []),
          location = \<lparr>lat = parseFloat w rlat, long = parseFloat w rlon\<rparr>,
          rawResponse = NominatimRaw raw\<rparr>"
  unfolding nominatimResult_eq_Inr using assms by blast

lemma nominatim_absent_fields:
  assumes "nominatimResult w fd (JObject ps) = Inr res"
    and "map_of ps ''address'' = Some (JObject qs)"
  shows "map_of qs ''country'' = None \<Longrightarrow> nation res = JString []"
    and "map_of qs ''state'' = None \<Longrightarrow> province res = JString []"
    and "map_of qs ''county'' = None \<Longrightarrow> county res = JString []"
    and "map_of qs ''town'' = None \<Longrightarrow> map_of qs ''city'' = None \<Longrightarrow> town res = JString []"
    and "map_of qs ''borough'' = None \<Longrightarrow> borough res = JString []"
    and "map_of qs ''house_number'' = None \<Longrightarrow> map_of qs ''road'' = None \<Longrightarrow> street res = JString []"
    and "map_of qs ''postcode'' = None \<Longrightarrow> zip_code res = JString []"
proof -
  from assms(1) obtain addr c hn ro rlat rlon raw where
      a: "getProp (JObject ps) ''address'' = Inr addr"
      and c: "js_or (lookup (js_or addr (JObject [])) ''county'') (JString []) = JString c"
      and hn: "toStringJS (numberToString w)
         (js_or (lookup (js_or addr (JObject [])) ''house_number'') (JString [])) = Inr hn"
      and ro: "toStringJS (numberToString w)
         (js_or (lookup (js_or addr (JObject [])) ''road'') (JString [])) = Inr ro"
      and res: "res = \<lparr>nation = js_or (lookup (js_or addr (JObject [])) ''country'') (JString []),
          province = js_or (lookup (js_or addr (JObject [])) ''state'') (JString []),
          county = JString (removeCountySuffix c),
          town = js_or (lookup (js_or addr (JObject [])) ''town'')
                   (js_or (lookup (js_or addr (JObject [])) ''city'') (JString [])),
          borough = js_or (lookup (js_or addr (JObject [])) ''borough'') (JString []),
          street = JString (trim (hn @ '' '' @ ro)),
          zip_code = js_or (lookup (js_or addr (JObject [])) ''postcode'') (JString []),
          location = \<lparr>lat = parseFloat w rlat, long = parseFloat w rlon\<rparr>,
          rawResponse = NominatimRaw raw\<rparr>"
    by (rule nominatimResult_Inr)
  from a assms(2) have "addr = JObject qs"
    by (simp add: getProp_def lookup_def)
  then have a': "js_or addr (JObject []) = JObject qs"
    by (simp add: js_or_def)
  show "map_of qs ''country'' = None \<Longrightarrow> nation res = JString []"
    unfolding res a' by (simp add: lookup_def js_or_def)
  show "map_of qs ''state'' = None \<Longrightarrow> province res = JString []"
    unfolding res a' by (simp add: lookup_def js_or_def)
  show "map_of qs ''county'' = None \<Longrightarrow> county res = JString []"
    using c unfolding res a' by (auto simp: lookup_def js_or_def removeCountySuffix_def endsWith_def
        COUNTY_SUFFIX_def)
  show "map_of qs ''town'' = None \<Longrightarrow> map_of qs ''city'' = None \<Longrightarrow> town res = JString []"
    unfolding res a' by (simp add: lookup_def js_or_def)
  show "map_of qs ''borough'' = None \<Longrightarrow> borough res = JString []"
    unfolding res a' by (simp add: lookup_def js_or_def)
  show "map_of qs ''house_number'' = None \<Longrightarrow> map_of qs ''road'' = None \<Longrightarrow> street res = JString []"
    using hn ro unfolding res a' by (auto simp: lookup_def js_or_def trim_def isWhiteSpace_def)
  show "map_of qs ''postcode'' = None \<Longrightarrow> zip_code res = JString []"
    unfolding res a' by (simp add: lookup_def js_or_def)
qed

lemma nominatimReverse_trace: "fst (nominatimReverse w fd la lo) = [HttpGet (reverseUrl w la lo)]"
  by (simp add: nominatimReverse_def Let_def split: sum.splits)

lemma nominatimReverse_Result:
  assumes "nominatimReverse w fd la lo = (tr, Inr (Result res))"
  obtains response rd where
    "tr = [HttpGet (reverseUrl w la lo)]"
    "fetch w (reverseUrl w la lo) = Inr response"
    "ok response"
    "json response = Inr rd"
    "nominatimResult w fd rd = Inr res"
  using assms
  by (auto simp: nominatimReverse_def Let_def andThen_eq_Inr split: sum.splits if_splits)

lemma nominatimReverse_total:
  assumes "fetch w (reverseUrl w la lo) = Inr response"
    and "ok response"
    and "json response = Inr rd"
    and "nominatimResult w fd rd = Inr res"
  shows "nominatimReverse w fd la lo = ([HttpGet (reverseUrl w la lo)], Inr (Result res))"
  using assms by (simp add: nominatimReverse_def Let_def andThen_Inr)

lemma nominatimReverse_no_Message: "snd (nominatimReverse w fd la lo) \<noteq> Inr (Message m)"
  by (auto simp: nominatimReverse_def Let_def andThen_eq_Inr split: sum.splits if_splits)

lemma forwardCoordinates_eq_Inr:
  "(forwardCoordinates w fd = Inr (la, lo)) =
     (\<exists>hit hlat hlon.
        getIndex0 fd = Inr hit \<and> hit \<noteq> JUndefined \<and> hit \<noteq> JNull
      \<and> toStringJS (numberToString w) (lookup hit ''lat'') = Inr hlat
      \<and> toStringJS (numberToString w) (lookup hit ''lon'') = Inr hlon
      \<and> la = parseFloat w hlat \<and> lo = parseFloat w hlon)"
  by (auto simp: forwardCoordinates_def andThen_eq_Inr getProp_eq_Inr jsParseFloat_eq_Inr)

lemma nominatimForward_coordinates:
  assumes "encodeURIComponent w (filter (\<lambda>c. c \<noteq> CHR 0x27) a) = Inr q"
    and "fetch w (SEARCH_URL @ q) = Inr response"
    and "ok response"
    and "json response = Inr forwardData"
    and "truthy forwardData"
    and "\<not> strictEqZero (lookup forwardData ''length'')"
    and "forwardCoordinates w forwardData = Inr (la, lo)"
  shows "nominatimForward w a =
           (HttpGet (SEARCH_URL @ q) # fst (nominatimReverse w forwardData la lo),
            snd (nominatimReverse w forwardData la lo))"
  using assms
  by (simp add: nominatimForward_def Let_def getProp_truthy split: prod.splits)

lemma nominatimForward_Result:
  assumes "nominatimForward w a = (tr, Inr (Result res))"
  obtains q response fd la lo where
    "encodeURIComponent w (filter (\<lambda>c. c \<noteq> CHR 0x27) a) = Inr q"
    "fetch w (SEARCH_URL @ q) = Inr response"
    "ok response"
    "json response = Inr fd"
    "truthy fd"
    "forwardCoordinates w fd = Inr (la, lo)"
    "nominatimReverse w fd la lo = ([HttpGet (reverseUrl w la lo)], Inr (Result res))"
    "tr = [HttpGet (SEARCH_URL @ q), HttpGet (reverseUrl w la lo)]"
proof -
  from assms obtain q where q: "encodeURIComponent w (filter (\<lambda>c. c \<noteq> CHR 0x27) a) = Inr q"
    by (auto simp: nominatimForward_def split: sum.splits)
  with assms obtain response where r: "fetch w (SEARCH_URL @ q) = Inr response"
    by (auto simp: nominatimForward_def Let_def split: sum.splits)
  with assms q have k: "ok response"
    by (auto simp: nominatimForward_def Let_def split: if_splits)
  with assms q r obtain fd where fd: "json response = Inr fd"
    by (auto simp: nominatimForward_def Let_def split: sum.splits)
  with assms q r k have t: "truthy fd"
    by (auto simp: nominatimForward_def Let_def logError_def split: if_splits)
  then have len: "getProp fd ''length'' = Inr (lookup fd ''length'')"
    by (rule getProp_truthy)
  with assms q r k fd t have z: "\<not> strictEqZero (lookup fd ''length'')"
    by (auto simp: nominatimForward_def Let_def logError_def split: if_splits)
  with assms q r k fd t len obtain la lo where c: "forwardCoordinates w fd = Inr (la, lo)"
    by (auto simp: nominatimForward_def Let_def split: sum.splits)
  with assms q r k fd t len z obtain tr' where
    rev: "nominatimReverse w fd la lo = (tr', Inr (Result res))" and tr: "tr = HttpGet (SEARCH_URL @ q) # tr'"
    by (auto simp: nominatimForward_def Let_def split: prod.splits)
  from rev have "tr' = [HttpGet (reverseUrl w la lo)]"
    using nominatimReverse_trace [of w fd la lo] by simp
  with q r k fd t c rev tr that show ?thesis by simp
qed

lemma nominatimForward_no_results:
  assumes "encodeURIComponent w (filter (\<lambda>c. c \<noteq> CHR 0x27) a) = Inr q"
    and "fetch w (SEARCH_URL @ q) = Inr response"
    and "ok response"
    and "json response = Inr forwardData"
    and "\<not> truthy forwardData \<or> strictEqZero (lookup forwardData ''length'')"
  shows "nominatimForward w a =
     ([HttpGet (SEARCH_URL @ q),
       ConsoleError ''Nominatim Forward Geocoding failed: No results found'' NoArg],
      Inr (Message ''Nominatim Forward Geocoding failed: No results found''))"
  using assms
  by (auto simp: nominatimForward_def Let_def logError_def getProp_truthy)

lemma nominatimTry_Result_cases:
  assumes "nominatimTry w this isReverse = (tr, Inr (Result res))"
  obtains (reverse) loc where "isReverse" "this_location this = Some loc"
      "nominatimReverse w JNull (lat loc) (long loc) = (tr, Inr (Result res))"
    | (forward) a where "\<not> isReverse" "this_address this = Some a" "a \<noteq> []"
      "nominatimForward w a = (tr, Inr (Result res))"
  using assms by (auto simp: nominatimTry_def split: if_splits option.splits)

lemma geocodeWithNominatim_Result:
  "geocodeWithNominatim w this isReverse = (tr, Inr (Result res))
     \<Longrightarrow> nominatimTry w this isReverse = (tr, Inr (Result res))"
  by (auto simp: geocodeWithNominatim_def split: prod.splits sum.splits)

lemma geocodeWithNominatim_passes:
  "nominatimTry w this isReverse = (tr, Inr r)
     \<Longrightarrow> geocodeWithNominatim w this isReverse = (tr, Inr r)"
  by (simp add: geocodeWithNominatim_def)

lemma geocodeWithNominatim_returns: "\<exists>tr r. geocodeWithNominatim w this isReverse = (tr, Inr r)"
  by (auto simp: geocodeWithNominatim_def split: prod.splits sum.splits)

lemma requests_geocodeWithNominatim:
  "filter isRequest (fst (geocodeWithNominatim w this isReverse))
     = filter isRequest (fst (nominatimTry w this isReverse))"
  by (auto simp: geocodeWithNominatim_def logError_def isRequest_def split: prod.splits sum.splits)

lemma reverse_mode_request:
  assumes "this_location this = Some loc"
  shows "filter isRequest (fst (geocodeWithNominatim w this True))
           = [HttpGet (reverseUrl w (lat loc) (long loc))]"
  using assms nominatimReverse_trace [of w JNull "lat loc" "long loc"]
  by (simp add: requests_geocodeWithNominatim nominatimTry_def isRequest_def)

lemma forward_mode_requests:
  assumes "this_address this = Some a" and "a \<noteq> []"
    and "encodeURIComponent w (filter (\<lambda>c. c \<noteq> CHR 0x27) a) = Inr q"
    and "fetch w (SEARCH_URL @ q) = Inr response"
    and "ok response"
    and "json response = Inr forwardData"
    and "truthy forwardData"
    and "\<not> strictEqZero (lookup forwardData ''length'')"
    and "forwardCoordinates w forwardData = Inr (la, lo)"
  shows "filter isRequest (fst (geocodeWithNominatim w this False))
           = [HttpGet (SEARCH_URL @ q), HttpGet (reverseUrl w la lo)]"
  using assms(1,2) nominatimForward_coordinates [OF assms(3-9)]
    nominatimReverse_trace [of w forwardData la lo]
  by (simp add: requests_geocodeWithNominatim nominatimTry_def isRequest_def)

lemma reverse_mode_total:
  assumes "this_location this = Some loc"
    and "fetch w (reverseUrl w (lat loc) (long loc)) = Inr reverseResponse"
    and "ok reverseResponse"
    and "json reverseResponse = Inr reverseData"
    and "getProp reverseData ''address'' = Inr addr
      \<and> js_or (lookup (js_or addr (JObject [])) ''county'') (JString []) = JString c
      \<and> toStringJS (numberToString w)
           (js_or (lookup (js_or addr (JObject [])) ''house_number'') (JString [])) = Inr hn
      \<and> toStringJS (numberToString w)
           (js_or (lookup (js_or addr (JObject [])) ''road'') (JString [])) = Inr ro
      \<and> toStringJS (numberToString w) (lookup reverseData ''lat'') = Inr rlat
      \<and> toStringJS (numberToString w) (lookup reverseData ''lon'') = Inr rlon"
  shows "geocodeWithNominatim w this True =
           ([HttpGet (reverseUrl w (lat loc) (long loc))],
            Inr (Result (\<lparr>nation = js_or (lookup (js_or addr (JObject [])) ''country'') (JString []),
          province = js_or (lookup (js_or addr (JObject [])) ''state'') (JString []),
          county = JString (removeCountySuffix c),
          town = js_or (lookup (js_or addr (JObject [])) ''town'')
                   (js_or (lookup (js_or addr (JObject [])) ''city'') (JString [])),
          borough = js_or (lookup (js_or addr (JObject [])) ''borough'') (JString []),
          street = JString (trim (hn @ '' '' @ ro)),
          zip_code = js_or (lookup (js_or addr (JObject [])) ''postcode'') (JString []),
          location = \<lparr>lat = parseFloat w rlat, long = parseFloat w rlon\<rparr>,
          rawResponse = NominatimRaw reverseData\<rparr>)))"
proof -
  from assms(5) have "nominatimResult w JNull reverseData = Inr (\<lparr>nation = js_or (lookup (js_or addr (JObject [])) ''country'') (JString []),
          province = js_or (lookup (js_or addr (JObject [])) ''state'') (JString []),
          county = JString (removeCountySuffix c),
          town = js_or (lookup (js_or addr (JObject [])) ''town'')
                   (js_or (lookup (js_or addr (JObject [])) ''city'') (JString [])),
          borough = js_or (lookup (js_or addr (JObject [])) ''borough'') (JString []),
          street = JString (trim (hn @ '' '' @ ro)),
          zip_code = js_or (lookup (js_or addr (JObject [])) ''postcode'') (JString []),
          location = \<lparr>lat = parseFloat w rlat, long = parseFloat w rlon\<rparr>,
          rawResponse = NominatimRaw reverseData\<rparr>)"
    by (intro nominatimResult_total) simp_all
  with assms(2-4) have "nominatimReverse w JNull (lat loc) (long loc) =
      ([HttpGet (reverseUrl w (lat loc) (long loc))], Inr (Result (\<lparr>nation = js_or (lookup (js_or addr (JObject [])) ''country'') (JString []),
          province = js_or (lookup (js_or addr (JObject [])) ''state'') (JString []),
          county = JString (removeCountySuffix c),
          town = js_or (lookup (js_or addr (JObject [])) ''town'')
                   (js_or (lookup (js_or addr (JObject [])) ''city'') (JString [])),
          borough = js_or (lookup (js_or addr (JObject [])) ''borough'') (JString []),
          street = JString (trim (hn @ '' '' @ ro)),
          zip_code = js_or (lookup (js_or addr (JObject [])) ''postcode'') (JString []),
          location = \<lparr>lat = parseFloat w rlat, long = parseFloat w rlon\<rparr>,
          rawResponse = NominatimRaw reverseData\<rparr>)))"
    by (rule nominatimReverse_total)
  with assms(1) show ?thesis
    by (intro geocodeWithNominatim_passes) (simp add: nominatimTry_def)
qed

lemma forward_mode_total:
  assumes "this_address this = Some a" and "a \<noteq> []"
    and "encodeURIComponent w (filter (\<lambda>c. c \<noteq> CHR 0x27) a) = Inr q"
    and "fetch w (SEARCH_URL @ q) = Inr response"
    and "ok response"
    and "json response = Inr forwardData"
    and "truthy forwardData"
    and "\<not> strictEqZero (lookup forwardData ''length'')"
    and "getIndex0 forwardData = Inr hit \<and> hit \<noteq> JUndefined \<and> hit \<noteq> JNull
      \<and> toStringJS (numberToString w) (lookup hit ''lat'') = Inr hlat
      \<and> toStringJS (numberToString w) (lookup hit ''lon'') = Inr hlon"
    and "fetch w (reverseUrl w (parseFloat w hlat) (parseFloat w hlon)) = Inr reverseResponse"
    and "ok reverseResponse"
    and "json reverseResponse = Inr reverseData"
    and "getProp reverseData ''address'' = Inr addr
      \<and> js_or (lookup (js_or addr (JObject [])) ''county'') (JString []) = JString c
      \<and> toStringJS (numberToString w)
           (js_or (lookup (js_or addr (JObject [])) ''house_number'') (JString [])) = Inr hn
      \<and> toStringJS (numberToString w)
           (js_or (lookup (js_or addr (JObject [])) ''road'') (JString [])) = Inr ro
      \<and> toStringJS (numberToString w) (lookup reverseData ''lat'') = Inr rlat
      \<and> toStringJS (numberToString w) (lookup reverseData ''lon'') = Inr rlon"
  shows "geocodeWithNominatim w this False =
           ([HttpGet (SEARCH_URL @ q), HttpGet (reverseUrl w (parseFloat w hlat) (parseFloat w hlon))],
            Inr (Result (\<lparr>nation = js_or (lookup (js_or addr (JObject [])) ''country'') (JString []),
          province = js_or (lookup (js_or addr (JObject [])) ''state'') (JString []),
          county = JString (removeCountySuffix c),
          town = js_or (lookup (js_or addr (JObject [])) ''town'')
                   (js_or (lookup (js_or addr (JObject [])) ''city'') (JString [])),
          borough = js_or (lookup (js_or addr (JObject [])) ''borough'') (JString []),
          street = JString (trim (hn @ '' '' @ ro)),
          zip_code = js_or (lookup (js_or addr (JObject [])) ''postcode'') (JString []),
          location = \<lparr>lat = parseFloat w rlat, long = parseFloat w rlon\<rparr>,
          rawResponse = NominatimRaw hit\<rparr>)))"
proof -
  from assms(9) have c: "forwardCoordinates w forwardData = Inr (parseFloat w hlat, parseFloat w hlon)"
    unfolding forwardCoordinates_eq_Inr by blast
  from assms(7,9,13) have "nominatimResult w forwardData reverseData = Inr (\<lparr>nation = js_or (lookup (js_or addr (JObject [])) ''country'') (JString []),
          province = js_or (lookup (js_or addr (JObject [])) ''state'') (JString []),
          county = JString (removeCountySuffix c),
          town = js_or (lookup (js_or addr (JObject [])) ''town'')
                   (js_or (lookup (js_or addr (JObject [])) ''city'') (JString [])),
          borough = js_or (lookup (js_or addr (JObject [])) ''borough'') (JString []),
          street = JString (trim (hn @ '' '' @ ro)),
          zip_code = js_or (lookup (js_or addr (JObject [])) ''postcode'') (JString []),
          location = \<lparr>lat = parseFloat w rlat, long = parseFloat w rlon\<rparr>,
          rawResponse = NominatimRaw hit\<rparr>)"
    by (intro nominatimResult_total) simp_all
  with assms(10-12) have "nominatimReverse w forwardData (parseFloat w hlat) (parseFloat w hlon) =
      ([HttpGet (reverseUrl w (parseFloat w hlat) (parseFloat w hlon))], Inr (Result (\<lparr>nation = js_or (lookup (js_or addr (JObject [])) ''country'') (JString []),
          province = js_or (lookup (js_or addr (JObject [])) ''state'') (JString []),
          county = JString (removeCountySuffix c),
          town = js_or (lookup (js_or addr (JObject [])) ''town'')
                   (js_or (lookup (js_or addr (JObject [])) ''city'') (JString [])),
          borough = js_or (lookup (js_or addr (JObject [])) ''borough'') (JString []),
          street = JString (trim (hn @ '' '' @ ro)),
          zip_code = js_or (lookup (js_or addr (JObject [])) ''postcode'') (JString []),
          location = \<lparr>lat = parseFloat w rlat, long = parseFloat w rlon\<rparr>,
          rawResponse = NominatimRaw hit\<rparr>)))"
    by (rule nominatimReverse_total)
  with nominatimForward_coordinates [OF assms(3-8) c]
  have "nominatimForward w a =
           ([HttpGet (SEARCH_URL @ q), HttpGet (reverseUrl w (parseFloat w hlat) (parseFloat w hlon))],
            Inr (Result (\<lparr>nation = js_or (lookup (js_or addr (JObject [])) ''country'') (JString []),
          province = js_or (lookup (js_or addr (JObject [])) ''state'') (JString []),
          county = JString (removeCountySuffix c),
          town = js_or (lookup (js_or addr (JObject [])) ''town'')
                   (js_or (lookup (js_or addr (JObject [])) ''city'') (JString [])),
          borough = js_or (lookup (js_or addr (JObject [])) ''borough'') (JString []),
          street = JString (trim (hn @ '' '' @ ro)),
          zip_code = js_or (lookup (js_or addr (JObject [])) ''postcode'') (JString []),
          location = \<lparr>lat = parseFloat w rlat, long = parseFloat w rlon\<rparr>,
          rawResponse = NominatimRaw hit\<rparr>)))"
    by simp
  with assms(1,2) show ?thesis
    by (intro geocodeWithNominatim_passes) (simp add: nominatimTry_def)
qed

lemma nominatim_success_fields:
  assumes "geocodeWithNominatim w this isReverse = (tr, Inr (Result res))"
  shows "(\<exists>la' lo' reverseResponse reverseData addr c hn ro rlat rlon raw.
          last tr = HttpGet (reverseUrl w la' lo')
        \<and> fetch w (reverseUrl w la' lo') = Inr reverseResponse
        \<and> ok reverseResponse
        \<and> json reverseResponse = Inr reverseData
        \<and> getProp reverseData ''address'' = Inr addr
      \<and> js_or (lookup (js_or addr (JObject [])) ''county'') (JString []) = JString c
      \<and> toStringJS (numberToString w)
           (js_or (lookup (js_or addr (JObject [])) ''house_number'') (JString [])) = Inr hn
      \<and> toStringJS (numberToString w)
           (js_or (lookup (js_or addr (JObject [])) ''road'') (JString [])) = Inr ro
      \<and> toStringJS (numberToString w) (lookup reverseData ''lat'') = Inr rlat
      \<and> toStringJS (numberToString w) (lookup reverseData ''lon'') = Inr rlon
        \<and> res = \<lparr>nation = js_or (lookup (js_or addr (JObject [])) ''country'') (JString []),
          province = js_or (lookup (js_or addr (JObject [])) ''state'') (JString []),
          county = JString (removeCountySuffix c),
          town = js_or (lookup (js_or addr (JObject [])) ''town'')
                   (js_or (lookup (js_or addr (JObject [])) ''city'') (JString [])),
          borough = js_or (lookup (js_or addr (JObject [])) ''borough'') (JString []),
          street = JString (trim (hn @ '' '' @ ro)),
          zip_code = js_or (lookup (js_or addr (JObject [])) ''postcode'') (JString []),
          location = \<lparr>lat = parseFloat w rlat, long = parseFloat w rlon\<rparr>,
          rawResponse = NominatimRaw raw\<rparr>
        \<and> (if isReverse then
              this_location this = Some \<lparr>lat = la', long = lo'\<rparr> \<and> raw = reverseData
            else
              (\<exists>a q response forwardData hlat hlon.
                  this_address this = Some a
                \<and> encodeURIComponent w (filter (\<lambda>c. c \<noteq> CHR 0x27) a) = Inr q
                \<and> hd tr = HttpGet (SEARCH_URL @ q)
                \<and> fetch w (SEARCH_URL @ q) = Inr response
                \<and> json response = Inr forwardData
                \<and> getIndex0 forwardData = Inr raw
                \<and> toStringJS (numberToString w) (lookup raw ''lat'') = Inr hlat
                \<and> toStringJS (numberToString w) (lookup raw ''lon'') = Inr hlon
                \<and> la' = parseFloat w hlat \<and> lo' = parseFloat w hlon)))"
proof -
  from assms have "nominatimTry w this isReverse = (tr, Inr (Result res))"
    by (rule geocodeWithNominatim_Result)
  then show ?thesis
  proof (cases rule: nominatimTry_Result_cases)
    case (reverse loc)
    from reverse(3) obtain response rd where
      tr: "tr = [HttpGet (reverseUrl w (lat loc) (long loc))]"
      and f: "fetch w (reverseUrl w (lat loc) (long loc)) = Inr response"
      and k: "ok response"
      and j: "json response = Inr rd"
      and n: "nominatimResult w JNull rd = Inr res"
      by (rule nominatimReverse_Result)
    from n obtain addr c hn ro rlat rlon raw where
      p: "getProp rd ''address'' = Inr addr"
        "js_or (lookup (js_or addr (JObject [])) ''county'') (JString []) = JString c"
        "toStringJS (numberToString w)
           (js_or (lookup (js_or addr (JObject [])) ''house_number'') (JString [])) = Inr hn"
        "toStringJS (numberToString w)
           (js_or (lookup (js_or addr (JObject [])) ''road'') (JString [])) = Inr ro"
        "toStringJS (numberToString w) (lookup rd ''lat'') = Inr rlat"
        "toStringJS (numberToString w) (lookup rd ''lon'') = Inr rlon"
      and raw: "(if truthy JNull then getIndex0 JNull else Inr rd) = Inr raw"
      and res: "res = \<lparr>nation = js_or (lookup (js_or addr (JObject [])) ''country'') (JString []),
          province = js_or (lookup (js_or addr (JObject [])) ''state'') (JString []),
          county = JString (removeCountySuffix c),
          town = js_or (lookup (js_or addr (JObject [])) ''town'')
                   (js_or (lookup (js_or addr (JObject [])) ''city'') (JString [])),
          borough = js_or (lookup (js_or addr (JObject [])) ''borough'') (JString []),
          street = JString (trim (hn @ '' '' @ ro)),
          zip_code = js_or (lookup (js_or addr (JObject [])) ''postcode'') (JString []),
          location = \<lparr>lat = parseFloat w rlat, long = parseFloat w rlon\<rparr>,
          rawResponse = NominatimRaw raw\<rparr>"
      by (rule nominatimResult_Inr)
    from raw have r: "raw = rd" by simp
    have l: "last tr = HttpGet (reverseUrl w (lat loc) (long loc))"
      by (simp add: tr)
    have m: "if isReverse then
               this_location this = Some \<lparr>lat = lat loc, long = long loc\<rparr> \<and> raw = rd
             else
               (\<exists>a q response forwardData hlat hlon.
                  this_address this = Some a
                \<and> encodeURIComponent w (filter (\<lambda>c. c \<noteq> CHR 0x27) a) = Inr q
                \<and> hd tr = HttpGet (SEARCH_URL @ q)
                \<and> fetch w (SEARCH_URL @ q) = Inr response
                \<and> json response = Inr forwardData
                \<and> getIndex0 forwardData = Inr raw
                \<and> toStringJS (numberToString w) (lookup raw ''lat'') = Inr hlat
                \<and> toStringJS (numberToString w) (lookup raw ''lon'') = Inr hlon
                \<and> lat loc = parseFloat w hlat \<and> long loc = parseFloat w hlon)"
      using reverse(1,2) r by simp
    show ?thesis
      by (intro exI conjI) (rule l f k j p res m)+
  next
    case (forward ad)
    from forward(4) obtain q response fd la lo where
      q: "encodeURIComponent w (filter (\<lambda>c. c \<noteq> CHR 0x27) ad) = Inr q"
      and sf: "fetch w (SEARCH_URL @ q) = Inr response"
      and sj: "json response = Inr fd"
      and t: "truthy fd"
      and co: "forwardCoordinates w fd = Inr (la, lo)"
      and rev: "nominatimReverse w fd la lo = ([HttpGet (reverseUrl w la lo)], Inr (Result res))"
      and tr: "tr = [HttpGet (SEARCH_URL @ q), HttpGet (reverseUrl w la lo)]"
      by (rule nominatimForward_Result)
    from co obtain hit hlat hlon where
      hit: "getIndex0 fd = Inr hit"
      and hl: "toStringJS (numberToString w) (lookup hit ''lat'') = Inr hlat"
        "toStringJS (numberToString w) (lookup hit ''lon'') = Inr hlon"
        "la = parseFloat w hlat" "lo = parseFloat w hlon"
      unfolding forwardCoordinates_eq_Inr by blast
    from rev obtain rresponse rd where
      f: "fetch w (reverseUrl w la lo) = Inr rresponse"
      and k: "ok rresponse"
      and j: "json rresponse = Inr rd"
      and n: "nominatimResult w fd rd = Inr res"
      by (rule nominatimReverse_Result)
    from n obtain addr c hn ro rlat rlon raw where
      p: "getProp rd ''address'' = Inr addr"
        "js_or (lookup (js_or addr (JObject [])) ''county'') (JString []) = JString c"
        "toStringJS (numberToString w)
           (js_or (lookup (js_or addr (JObject [])) ''house_number'') (JString [])) = Inr hn"
        "toStringJS (numberToString w)
           (js_or (lookup (js_or addr (JObject [])) ''road'') (JString [])) = Inr ro"
        "toStringJS (numberToString w) (lookup rd ''lat'') = Inr rlat"
        "toStringJS (numberToString w) (lookup rd ''lon'') = Inr rlon"
      and raw: "(if truthy fd then getIndex0 fd else Inr rd) = Inr raw"
      and res: "res = \<lparr>nation = js_or (lookup (js_or addr (JObject [])) ''country'') (JString []),
          province = js_or (lookup (js_or addr (JObject [])) ''state'') (JString []),
          county = JString (removeCountySuffix c),
          town = js_or (lookup (js_or addr (JObject [])) ''town'')
                   (js_or (lookup (js_or addr (JObject [])) ''city'') (JString [])),
          borough = js_or (lookup (js_or addr (JObject [])) ''borough'') (JString []),
          street = JString (trim (hn @ '' '' @ ro)),
          zip_code = js_or (lookup (js_or addr (JObject [])) ''postcode'') (JString []),
          location = \<lparr>lat = parseFloat w rlat, long = parseFloat w rlon\<rparr>,
          rawResponse = NominatimRaw raw\<rparr>"
      by (rule nominatimResult_Inr)
    from raw t hit have r: "raw = hit" by simp
    have fw: "\<exists>a q response forwardData hlat hlon.
                  this_address this = Some a
                \<and> encodeURIComponent w (filter (\<lambda>c. c \<noteq> CHR 0x27) a) = Inr q
                \<and> hd tr = HttpGet (SEARCH_URL @ q)
                \<and> fetch w (SEARCH_URL @ q) = Inr response
                \<and> json response = Inr forwardData
                \<and> getIndex0 forwardData = Inr raw
                \<and> toStringJS (numberToString w) (lookup raw ''lat'') = Inr hlat
                \<and> toStringJS (numberToString w) (lookup raw ''lon'') = Inr hlon
                \<and> la = parseFloat w hlat \<and> lo = parseFloat w hlon"
    proof -
      have h: "hd tr = HttpGet (SEARCH_URL @ q)" by (simp add: tr)
      from hit r have g: "getIndex0 fd = Inr raw" by simp
      from hl(1,2) r have s: "toStringJS (numberToString w) (lookup raw ''lat'') = Inr hlat"
        "toStringJS (numberToString w) (lookup raw ''lon'') = Inr hlon" by simp_all
      show ?thesis
        by (intro exI conjI) (rule forward(2) q h sf sj g s hl(3,4))+
    qed
    have l: "last tr = HttpGet (reverseUrl w la lo)"
      by (simp add: tr)
    have m: "if isReverse then
               this_location this = Some \<lparr>lat = la, long = lo\<rparr> \<and> raw = rd
             else
               (\<exists>a q response forwardData hlat hlon.
                  this_address this = Some a
                \<and> encodeURIComponent w (filter (\<lambda>c. c \<noteq> CHR 0x27) a) = Inr q
                \<and> hd tr = HttpGet (SEARCH_URL @ q)
                \<and> fetch w (SEARCH_URL @ q) = Inr response
                \<and> json response = Inr forwardData
                \<and> getIndex0 forwardData = Inr raw
                \<and> toStringJS (numberToString w) (lookup raw ''lat'') = Inr hlat
                \<and> toStringJS (numberToString w) (lookup raw ''lon'') = Inr hlon
                \<and> la = parseFloat w hlat \<and> lo = parseFloat w hlon)"
      using forward(1) fw by (simp only: if_False)
    show ?thesis
      by (intro exI conjI) (rule l f k j p res m)+
  qed
qed

section \<open>County suffix stripping\<close>

lemma endsWith_iff: "endsWith s suf = (\<exists>t. s = t @ suf)"
proof
  assume "endsWith s suf"
  then have "s = take (length s - length suf) s @ suf"
    by (metis append_take_drop_id endsWith_def)
  then show "\<exists>t. s = t @ suf" ..
next
  assume "\<exists>t. s = t @ suf"
  then show "endsWith s suf" by (auto simp: endsWith_def)
qed

lemma removeCountySuffix_append: "removeCountySuffix (t @ COUNTY_SUFFIX) = t"
  by (simp add: removeCountySuffix_def endsWith_def sliceDropLast_def)

lemma removeCountySuffix_other: "\<not> endsWith s COUNTY_SUFFIX \<Longrightarrow> removeCountySuffix s = s"
  by (simp add: removeCountySuffix_def)

lemma removeCountySuffix_twice:
  "(removeCountySuffix (removeCountySuffix s) = removeCountySuffix s)
     = (\<not> endsWith s (COUNTY_SUFFIX @ COUNTY_SUFFIX))"
proof (cases "endsWith s COUNTY_SUFFIX")
  case True
  then obtain t where s: "s = t @ COUNTY_SUFFIX" by (auto simp: endsWith_iff)
  show ?thesis
  proof (cases "endsWith t COUNTY_SUFFIX")
    case True
    then obtain u where t: "t = u @ COUNTY_SUFFIX" by (auto simp: endsWith_iff)
    have "removeCountySuffix (removeCountySuffix s) = u"
      by (simp add: s t removeCountySuffix_append del: append_assoc)
    moreover have "removeCountySuffix s = u @ COUNTY_SUFFIX"
      by (simp add: s t removeCountySuffix_append del: append_assoc)
    moreover have "endsWith s (COUNTY_SUFFIX @ COUNTY_SUFFIX)"
      by (auto simp: endsWith_iff s t)
    ultimately show ?thesis by (simp add: COUNTY_SUFFIX_def)
  next
    case False
    have "\<not> endsWith s (COUNTY_SUFFIX @ COUNTY_SUFFIX)"
    proof
      assume "endsWith s (COUNTY_SUFFIX @ COUNTY_SUFFIX)"
      then obtain u where "s = u @ COUNTY_SUFFIX @ COUNTY_SUFFIX" by (auto simp: endsWith_iff)
      with s have "t = u @ COUNTY_SUFFIX" by simp
      with False show False by (auto simp: endsWith_iff)
    qed
    then show ?thesis
      by (simp add: s removeCountySuffix_append removeCountySuffix_other [OF False])
  qed
next
  case False
  have "\<not> endsWith s (COUNTY_SUFFIX @ COUNTY_SUFFIX)"
  proof
    assume "endsWith s (COUNTY_SUFFIX @ COUNTY_SUFFIX)"
    then obtain u where "s = (u @ COUNTY_SUFFIX) @ COUNTY_SUFFIX" by (auto simp: endsWith_iff)
    with False show False unfolding endsWith_iff by blast
  qed
  then show ?thesis by (simp add: removeCountySuffix_other [OF False])
qed

section \<open>Facts about the Google adapter\<close>

lemma geocodeWithGoogle_unloaded:
  "newGoogleGeocoder w = Inl e \<Longrightarrow> geocodeWithGoogle w this isReverse = ([], Inl e)"
  by (simp add: geocodeWithGoogle_def)


lemma google_failure_message:
  assumes "newGoogleGeocoder w = Inr ()"
    and "googleRequestFor this isReverse = Inr request"
    and "geocoder_geocode w request = Inr response"
    and "status response \<noteq> GeocoderStatus_OK \<or> results response = None"
  shows "snd (geocodeWithGoogle w this isReverse)
           = Inr (Message (''Google '' @ operationName isReverse @ '' Geocoding failed: ''
                    @ status response))"
  using assms by (auto simp: geocodeWithGoogle_def promisifyGeocode_def googleRespond_def)

lemma google_success:
  assumes "newGoogleGeocoder w = Inr ()"
    and "googleRequestFor this isReverse = Inr request"
    and "geocoder_geocode w request = Inr response"
    and "status response = GeocoderStatus_OK"
    and "results response = Some (r # rest)"
  shows "snd (geocodeWithGoogle w this isReverse) = Inr (Result (googleResult r))"
  using assms by (simp add: geocodeWithGoogle_def promisifyGeocode_def googleRespond_def)

lemma google_absent_fields:
  "googleComponents r ''country'' = None \<Longrightarrow> nation (googleResult r) = JString []"
  "googleComponents r ''administrative_area_level_1'' = None \<Longrightarrow> province (googleResult r) = JString []"
  "googleComponents r ''administrative_area_level_2'' = None \<Longrightarrow> county (googleResult r) = JString []"
  "googleComponents r ''locality'' = None \<Longrightarrow> town (googleResult r) = JString []"
  "googleComponents r ''sublocality_level_1'' = None \<Longrightarrow> borough (googleResult r) = JString []"
  "googleComponents r ''postal_code'' = None \<Longrightarrow> zip_code (googleResult r) = JString []"
  by (simp_all add: googleResult_def Let_def orEmpty_def removeCountySuffix_def endsWith_def
      COUNTY_SUFFIX_def)

lemma google_street:
  "street (googleResult r)
     = JString (orEmpty (googleComponents r ''street_number'') @ '' ''
                  @ orEmpty (googleComponents r ''route''))"
  by (simp add: googleResult_def Let_def)

lemma geocodeWithGoogle_requests_mismatch:
  "googleRequestFor this isReverse = Inl m
     \<Longrightarrow> fst (geocodeWithGoogle w this isReverse) = []"
  by (simp add: geocodeWithGoogle_def split: sum.splits)

section \<open>Facts about the public operations\<close>



lemma geocode_nominatim: "geocode w this nominatim = geocodeWithNominatim w this False"
  using geocodeWithNominatim_returns [of w this False] by (auto simp: geocode_def)

lemma reverseGeocode_nominatim: "reverseGeocode w this nominatim = geocodeWithNominatim w this True"
  using geocodeWithNominatim_returns [of w this True] by (auto simp: reverseGeocode_def)

lemma geocode_google_throws:
  "snd (geocodeWithGoogle w this False) = Inl e \<Longrightarrow>
     snd (geocode w this google)
       = Inr (Message (''Forward Geocoding error with google: '' @ errorMessage e))"
  by (auto simp: geocode_def providerString_def split: prod.splits sum.splits)

lemma reverseGeocode_google_throws:
  "snd (geocodeWithGoogle w this True) = Inl e \<Longrightarrow>
     snd (reverseGeocode w this google)
       = Inr (Message (''Reverse Geocoding error with google: '' @ errorMessage e))"
  by (auto simp: reverseGeocode_def providerString_def split: prod.splits sum.splits)

lemma mismatch_reverse:
  "this_location this = None \<Longrightarrow> p = nominatim \<or> newGoogleGeocoder w = Inr () \<Longrightarrow>
     reverseGeocode w this p
       = ([], Inr (Message ''No location coordinates provided for reverse geocoding''))"
  by (cases p)
    (auto simp: reverseGeocode_def geocodeWithGoogle_def googleRequestFor_def
      geocodeWithNominatim_def nominatimTry_def)

lemma mismatch_forward:
  "this_address this = None \<or> this_address this = Some [] \<Longrightarrow>
     p = nominatim \<or> newGoogleGeocoder w = Inr () \<Longrightarrow>
     geocode w this p = ([], Inr (Message ''No address provided for forward geocoding''))"
  by (cases p)
    (auto simp: geocode_def geocodeWithGoogle_def googleRequestFor_def
      geocodeWithNominatim_def nominatimTry_def)

lemma mismatch_reverse_quiet:
  "this_location this = None \<Longrightarrow>
     filter isRequest (fst (reverseGeocode w this p)) = []
     \<and> (\<exists>m. snd (reverseGeocode w this p) = Inr (Message m))"
  by (cases p; cases "newGoogleGeocoder w")
    (auto simp: reverseGeocode_def geocodeWithGoogle_def googleRequestFor_def
      geocodeWithNominatim_def nominatimTry_def logError_def isRequest_def)

lemma mismatch_forward_quiet:
  "this_address this = None \<or> this_address this = Some [] \<Longrightarrow>
     filter isRequest (fst (geocode w this p)) = []
     \<and> (\<exists>m. snd (geocode w this p) = Inr (Message m))"
  by (cases p; cases "newGoogleGeocoder w")
    (auto simp: geocode_def geocodeWithGoogle_def googleRequestFor_def
      geocodeWithNominatim_def nominatimTry_def logError_def isRequest_def)

section \<open>The operations on the sample inputs\<close>

lemmas model_defs =
  geocode_def reverseGeocode_def geocodeWithGoogle_def googleRequestFor_def googleRespond_def
  promisifyGeocode_def googleResult_def googleComponents_def orEmpty_def operationName_def
  providerString_def geocodeWithNominatim_def nominatimTry_def nominatimForward_def
  nominatimReverse_def nominatimResult_def forwardCoordinates_def jsParseFloat_def reverseUrl_def
  SEARCH_URL_def REVERSE_URL_def GeocoderStatus_OK_def logError_def errorMessage_def
  andThen_def getProp_def getIndex0_def lookup_def js_or_def strictEqZero_def
  callRemoveCountySuffix_def removeCountySuffix_def endsWith_def sliceDropLast_def
  COUNTY_SUFFIX_def trim_def isWhiteSpace_def cannotRead_def notAFunction_def isRequest_def

lemmas sample_defs =
  sampleWorld_def unloadedWorld_def sampleFetch_def sampleParseFloat_def
  sampleNumberToString_def sampleEncodeURIComponent_def encodeUnit_def isUnreserved_def
  percentByte_def hexDigit_def sampleForwardData_def sampleReverseData_def sampleAddress_def
  sampleHit_def
  routeOnlyResult_def cityResult_def failingWorld_def addressGeocoder_def locationGeocoder_def

lemma sample_encode: "sampleEncodeURIComponent ''White House'' = Inr ''White%20House''"
  by (simp add: sampleEncodeURIComponent_def encodeUnit_def isUnreserved_def percentByte_def
      hexDigit_def)

lemma sample_nominatimResult:
  "nominatimResult (sampleWorld None ''OK'') JNull sampleReverseData = Inr sampleReverseResult"
  by (simp add: model_defs sample_defs sampleReverseResult_def)


lemmas payload_defs =
  reverseUrl_def SEARCH_URL_def REVERSE_URL_def andThen_def getProp_def getIndex0_def
  lookup_def js_or_def strictEqZero_def removeCountySuffix_def endsWith_def sliceDropLast_def
  COUNTY_SUFFIX_def trim_def isWhiteSpace_def

section \<open>Claims\<close>



text \<open>
  C2 fails on the code. When the Google client answers with status \<^verbatim>\<open>OK\<close> and an
  empty list of results, the test \<^verbatim>\<open>status === OK && results\<close> holds (an empty
  array is truthy), \<^verbatim>\<open>results[0]\<close> is \<^verbatim>\<open>undefined\<close> and reading its
  \<^verbatim>\<open>geometry\<close> throws: the adapter throws a TypeError, and the public operation
  returns the catch handler's message, which holds the TypeError's text and not the
  status.
\<close>

theorem google_empty_results_throw:
  "snd (geocodeWithGoogle (sampleWorld (Some []) ''OK'') (addressGeocoder ''White House'') False)
     = Inl (Error (''Cannot read properties of undefined (reading '' @ [CHR 0x27]
                     @ ''geometry'' @ [CHR 0x27] @ '')''))
   \<and> snd (geocode (sampleWorld (Some []) ''OK'') (addressGeocoder ''White House'') google)
     = Inr (Message (''Forward Geocoding error with google: ''
              @ ''Cannot read properties of undefined (reading '' @ [CHR 0x27]
              @ ''geometry'' @ [CHR 0x27] @ '')''))
   \<and> snd (reverseGeocode (sampleWorld (Some []) ''OK'')
             (locationGeocoder (Finite 38.9) (Finite (- 77))) google)
     = Inr (Message (''Reverse Geocoding error with google: ''
              @ ''Cannot read properties of undefined (reading '' @ [CHR 0x27]
              @ ''geometry'' @ [CHR 0x27] @ '')''))"
  by (simp add: model_defs sample_defs)

text \<open>
  C3. Constructing a Geocoder from an object with both \<^verbatim>\<open>lat\<close> and \<^verbatim>\<open>long\<close>
  succeeds and keeps the two numbers; constructing from an object whose \<^verbatim>\<open>lat\<close> or
  \<^verbatim>\<open>long\<close> is missing throws an Error with the message
  \<^verbatim>\<open>Invalid location object: must contain lat and long properties\<close>.
\<close>

theorem newGeocoder_validates_location:
  "newGeocoder (ObjectArg \<lparr>lat_arg = Some la, long_arg = Some lo\<rparr>)
     = Inr \<lparr>this_address = None, this_location = Some \<lparr>lat = la, long = lo\<rparr>\<rparr>
   \<and> (lat_arg obj = None \<or> long_arg obj = None \<longrightarrow>
        newGeocoder (ObjectArg obj)
          = Inl (Error ''Invalid location object: must contain lat and long properties''))"
  by (auto simp: newGeocoder_def split: option.splits)

text \<open>
  The theorem at the coordinates of the repository's test, whole and without
  \<^verbatim>\<open>long\<close>.
\<close>

theorem newGeocoder_validates_location_witness:
  "newGeocoder (ObjectArg \<lparr>lat_arg = Some (Finite 38.8976763), long_arg = Some (Finite (- 77.0365298))\<rparr>)
     = Inr (locationGeocoder (Finite 38.8976763) (Finite (- 77.0365298)))
   \<and> newGeocoder (ObjectArg \<lparr>lat_arg = Some (Finite 38.8976763), long_arg = None\<rparr>)
     = Inl (Error ''Invalid location object: must contain lat and long properties'')"
  using newGeocoder_validates_location [of "Finite 38.8976763" "Finite (- 77.0365298)"
      "\<lparr>lat_arg = Some (Finite 38.8976763), long_arg = None\<rparr>"]
  by (simp add: locationGeocoder_def)

text \<open>
  C4, as amended. On a Geocoder constructed from an address string,
  \<open>reverseGeocode\<close> returns the message
  \<^verbatim>\<open>No location coordinates provided for reverse geocoding\<close>, and on a Geocoder
  constructed from a location, \<open>geocode\<close> returns the message
  \<^verbatim>\<open>No address provided for forward geocoding\<close>, with nothing logged, when the
  provider is Nominatim, or is Google and the Google Maps library is loaded. With
  either provider and in every environment, the operation issues no provider request
  and returns a message without throwing. When the construction of the Google client
  throws, the message with the Google provider is that of the \<^verbatim>\<open>catch\<close> block,
  \<^verbatim>\<open>Reverse Geocoding error with google: ...\<close> (or \<^verbatim>\<open>Forward ...\<close>) with the error's
  message.
\<close>

theorem mode_mismatch_returns_message:
  "(newGeocoder (AddressArg a) = Inr this \<and> (p = nominatim \<or> newGoogleGeocoder w = Inr ()) \<longrightarrow>
      reverseGeocode w this p
        = ([], Inr (Message ''No location coordinates provided for reverse geocoding'')))
   \<and> (newGeocoder (ObjectArg obj) = Inr this' \<and> (p = nominatim \<or> newGoogleGeocoder w = Inr ()) \<longrightarrow>
      geocode w this' p = ([], Inr (Message ''No address provided for forward geocoding'')))
   \<and> (newGeocoder (AddressArg a) = Inr this \<longrightarrow>
        filter isRequest (fst (reverseGeocode w this p)) = []
      \<and> (\<exists>m. snd (reverseGeocode w this p) = Inr (Message m)))
   \<and> (newGeocoder (ObjectArg obj) = Inr this' \<longrightarrow>
        filter isRequest (fst (geocode w this' p)) = []
      \<and> (\<exists>m. snd (geocode w this' p) = Inr (Message m)))
   \<and> (newGoogleGeocoder w = Inl e \<longrightarrow>
        snd (reverseGeocode w this google)
          = Inr (Message (''Reverse Geocoding error with google: '' @ errorMessage e))
      \<and> snd (geocode w this' google)
          = Inr (Message (''Forward Geocoding error with google: '' @ errorMessage e)))"
proof -
  have a: "newGeocoder (AddressArg a) = Inr this \<longrightarrow> this_location this = None"
    by (auto simp: newGeocoder_def)
  have b: "newGeocoder (ObjectArg obj) = Inr this' \<longrightarrow> this_address this' = None"
    by (auto simp: newGeocoder_def split: option.splits)
  have c: "newGoogleGeocoder w = Inl e \<longrightarrow>
        snd (reverseGeocode w this google)
          = Inr (Message (''Reverse Geocoding error with google: '' @ errorMessage e))
      \<and> snd (geocode w this' google)
          = Inr (Message (''Forward Geocoding error with google: '' @ errorMessage e))"
    using geocode_google_throws [of w this' e] reverseGeocode_google_throws [of w this e]
    by (auto simp: geocodeWithGoogle_unloaded)
  have r1: "newGeocoder (AddressArg a) = Inr this \<and> (p = nominatim \<or> newGoogleGeocoder w = Inr ()) \<longrightarrow>
      reverseGeocode w this p
        = ([], Inr (Message ''No location coordinates provided for reverse geocoding''))"
    using a mismatch_reverse [of this p w] by auto
  have r2: "newGeocoder (ObjectArg obj) = Inr this' \<and> (p = nominatim \<or> newGoogleGeocoder w = Inr ()) \<longrightarrow>
      geocode w this' p = ([], Inr (Message ''No address provided for forward geocoding''))"
    using b mismatch_forward [of this' p w] by auto
  have r3: "newGeocoder (AddressArg a) = Inr this \<longrightarrow>
        filter isRequest (fst (reverseGeocode w this p)) = []
      \<and> (\<exists>m. snd (reverseGeocode w this p) = Inr (Message m))"
    using a mismatch_reverse_quiet [of this w p] by auto
  have r4: "newGeocoder (ObjectArg obj) = Inr this' \<longrightarrow>
        filter isRequest (fst (geocode w this' p)) = []
      \<and> (\<exists>m. snd (geocode w this' p) = Inr (Message m))"
    using b mismatch_forward_quiet [of this' w p] by auto
  show ?thesis
    by (intro conjI) (rule r1 r2 r3 r4 c)+
qed

text \<open>
  The theorem in an environment where the library is loaded and any provider request
  would throw, and in one without the Google Maps library.
\<close>

theorem mode_mismatch_returns_message_witness:
  "reverseGeocode failingWorld (addressGeocoder ''White House'') google
     = ([], Inr (Message ''No location coordinates provided for reverse geocoding''))
   \<and> geocode failingWorld (locationGeocoder (Finite 38.9) (Finite (- 77))) google
     = ([], Inr (Message ''No address provided for forward geocoding''))
   \<and> snd (reverseGeocode unloadedWorld (addressGeocoder ''White House'') google)
     = Inr (Message ''Reverse Geocoding error with google: google is not defined'')
   \<and> filter isRequest (fst (reverseGeocode unloadedWorld (addressGeocoder ''White House'') google))
     = []"
proof -
  have a: "newGeocoder (AddressArg ''White House'') = Inr (addressGeocoder ''White House'')"
    by (simp add: newGeocoder_def addressGeocoder_def)
  have b: "newGeocoder (ObjectArg \<lparr>lat_arg = Some (Finite 38.9), long_arg = Some (Finite (- 77))\<rparr>)
             = Inr (locationGeocoder (Finite 38.9) (Finite (- 77)))"
    by (simp add: newGeocoder_def locationGeocoder_def)
  have l: "newGoogleGeocoder failingWorld = Inr ()"
    by (simp add: failingWorld_def)
  have u: "newGoogleGeocoder unloadedWorld = Inl (Error ''google is not defined'')"
    by (simp add: unloadedWorld_def)
  from a b l mode_mismatch_returns_message [where a = "''White House''"
      and this = "addressGeocoder ''White House''" and w = failingWorld and p = google
      and obj = "\<lparr>lat_arg = Some (Finite 38.9), long_arg = Some (Finite (- 77))\<rparr>"
      and this' = "locationGeocoder (Finite 38.9) (Finite (- 77))"]
  have "reverseGeocode failingWorld (addressGeocoder ''White House'') google
     = ([], Inr (Message ''No location coordinates provided for reverse geocoding''))
   \<and> geocode failingWorld (locationGeocoder (Finite 38.9) (Finite (- 77))) google
     = ([], Inr (Message ''No address provided for forward geocoding''))"
    by simp
  moreover
  from a u mode_mismatch_returns_message [where a = "''White House''"
      and this = "addressGeocoder ''White House''" and w = unloadedWorld and p = google
      and e = "Error ''google is not defined''"]
  have "snd (reverseGeocode unloadedWorld (addressGeocoder ''White House'') google)
     = Inr (Message ''Reverse Geocoding error with google: google is not defined'')
   \<and> filter isRequest (fst (reverseGeocode unloadedWorld (addressGeocoder ''White House'') google))
     = []"
    by (simp add: errorMessage_def)
  ultimately show ?thesis by blast
qed

text \<open>
  C4 as stated fails for the Google provider when the Google Maps library is not
  loaded. The adapter constructs the client (line 148) before it tests the held
  input, the construction throws, and \<open>reverseGeocode\<close> on a Geocoder constructed from
  an address returns the message of the \<^verbatim>\<open>catch\<close> block, which does not contain the
  mismatch message.
\<close>

theorem mode_mismatch_needs_google_library:
  "newGeocoder (AddressArg ''White House'') = Inr (addressGeocoder ''White House'')
   \<and> reverseGeocode unloadedWorld (addressGeocoder ''White House'') google
     = ([ConsoleError ''Reverse Geocoding error with google''
           (ErrorArg (Error ''google is not defined''))],
        Inr (Message ''Reverse Geocoding error with google: google is not defined''))
   \<and> \<not> containsString ''Reverse Geocoding error with google: google is not defined''
         ''No location coordinates provided for reverse geocoding''"
  by (simp add: newGeocoder_def model_defs sample_defs)

text \<open>
  C5. Once the Nominatim adapter has a coordinate pair it looks the pair up at the
  \<^verbatim>\<open>reverse\<close> endpoint, and a result is built from that lookup. In reverse mode:
  when the lookup of the held pair answers with an ok response whose payload has an
  \<^verbatim>\<open>address\<close> that can be read and whose house number, road, \<^verbatim>\<open>lat\<close> and
  \<^verbatim>\<open>lon\<close> convert to strings, the adapter issues that one request and returns the
  result whose address fields are computed from the \<^verbatim>\<open>address\<close> object of the
  payload and whose \<^verbatim>\<open>rawResponse\<close> is the payload. In forward mode: when the
  search answers with a first hit whose \<^verbatim>\<open>lat\<close> and \<^verbatim>\<open>lon\<close> convert to strings and
  the lookup of the parsed pair answers as above, the adapter issues the search and
  then the lookup, and returns the result whose address fields are computed from the
  \<^verbatim>\<open>address\<close> object of the reverse payload, not from the hit, and whose
  \<^verbatim>\<open>rawResponse\<close> is the hit. Conversely, whenever the adapter returns a result,
  the last request was a reverse lookup that answered with such a payload and the
  result is the one built from it, with the held pair and the payload as
  \<^verbatim>\<open>rawResponse\<close> in reverse mode, and the parsed pair of the first search hit and
  that hit in forward mode. The reverse lookup is requested as soon as the pair is
  there, whatever it answers. The public operations with the Nominatim provider are
  the adapter in the two modes.
\<close>

theorem nominatim_fields_from_reverse_lookup:
  "(this_location this = Some loc
      \<and> fetch w (reverseUrl w (lat loc) (long loc)) = Inr reverseResponse
      \<and> ok reverseResponse
      \<and> json reverseResponse = Inr reverseData
      \<and> getProp reverseData ''address'' = Inr addr
      \<and> js_or (lookup (js_or addr (JObject [])) ''county'') (JString []) = JString c
      \<and> toStringJS (numberToString w)
           (js_or (lookup (js_or addr (JObject [])) ''house_number'') (JString [])) = Inr hn
      \<and> toStringJS (numberToString w)
           (js_or (lookup (js_or addr (JObject [])) ''road'') (JString [])) = Inr ro
      \<and> toStringJS (numberToString w) (lookup reverseData ''lat'') = Inr rlat
      \<and> toStringJS (numberToString w) (lookup reverseData ''lon'') = Inr rlon \<longrightarrow>
    geocodeWithNominatim w this True =
      ([HttpGet (reverseUrl w (lat loc) (long loc))],
       Inr (Result \<lparr>nation = js_or (lookup (js_or addr (JObject [])) ''country'') (JString []),
          province = js_or (lookup (js_or addr (JObject [])) ''state'') (JString []),
          county = JString (removeCountySuffix c),
          town = js_or (lookup (js_or addr (JObject [])) ''town'')
                   (js_or (lookup (js_or addr (JObject [])) ''city'') (JString [])),
          borough = js_or (lookup (js_or addr (JObject [])) ''borough'') (JString []),
          street = JString (trim (hn @ '' '' @ ro)),
          zip_code = js_or (lookup (js_or addr (JObject [])) ''postcode'') (JString []),
          location = \<lparr>lat = parseFloat w rlat, long = parseFloat w rlon\<rparr>,
          rawResponse = NominatimRaw reverseData\<rparr>)))
   \<and> (this_address this = Some a \<and> a \<noteq> []
      \<and> encodeURIComponent w (filter (\<lambda>c. c \<noteq> CHR 0x27) a) = Inr q
      \<and> fetch w (SEARCH_URL @ q) = Inr response
      \<and> ok response
      \<and> json response = Inr forwardData
      \<and> truthy forwardData
      \<and> \<not> strictEqZero (lookup forwardData ''length'')
      \<and> getIndex0 forwardData = Inr hit \<and> hit \<noteq> JUndefined \<and> hit \<noteq> JNull
      \<and> toStringJS (numberToString w) (lookup hit ''lat'') = Inr hlat
      \<and> toStringJS (numberToString w) (lookup hit ''lon'') = Inr hlon
      \<and> fetch w (reverseUrl w (parseFloat w hlat) (parseFloat w hlon)) = Inr reverseResponse
      \<and> ok reverseResponse
      \<and> json reverseResponse = Inr reverseData
      \<and> getProp reverseData ''address'' = Inr addr
      \<and> js_or (lookup (js_or addr (JObject [])) ''county'') (JString []) = JString c
      \<and> toStringJS (numberToString w)
           (js_or (lookup (js_or addr (JObject [])) ''house_number'') (JString [])) = Inr hn
      \<and> toStringJS (numberToString w)
           (js_or (lookup (js_or addr (JObject [])) ''road'') (JString [])) = Inr ro
      \<and> toStringJS (numberToString w) (lookup reverseData ''lat'') = Inr rlat
      \<and> toStringJS (numberToString w) (lookup reverseData ''lon'') = Inr rlon \<longrightarrow>
    geocodeWithNominatim w this False =
      ([HttpGet (SEARCH_URL @ q),
        HttpGet (reverseUrl w (parseFloat w hlat) (parseFloat w hlon))],
       Inr (Result \<lparr>nation = js_or (lookup (js_or addr (JObject [])) ''country'') (JString []),
          province = js_or (lookup (js_or addr (JObject [])) ''state'') (JString []),
          county = JString (removeCountySuffix c),
          town = js_or (lookup (js_or addr (JObject [])) ''town'')
                   (js_or (lookup (js_or addr (JObject [])) ''city'') (JString [])),
          borough = js_or (lookup (js_or addr (JObject [])) ''borough'') (JString []),
          street = JString (trim (hn @ '' '' @ ro)),
          zip_code = js_or (lookup (js_or addr (JObject [])) ''postcode'') (JString []),
          location = \<lparr>lat = parseFloat w rlat, long = parseFloat w rlon\<rparr>,
          rawResponse = NominatimRaw hit\<rparr>)))
   \<and> (geocodeWithNominatim w this isReverse = (tr, Inr (Result res)) \<longrightarrow>
       (\<exists>la' lo' reverseResponse reverseData addr c hn ro rlat rlon raw.
          last tr = HttpGet (reverseUrl w la' lo')
        \<and> fetch w (reverseUrl w la' lo') = Inr reverseResponse
        \<and> ok reverseResponse
        \<and> json reverseResponse = Inr reverseData
        \<and> getProp reverseData ''address'' = Inr addr
      \<and> js_or (lookup (js_or addr (JObject [])) ''county'') (JString []) = JString c
      \<and> toStringJS (numberToString w)
           (js_or (lookup (js_or addr (JObject [])) ''house_number'') (JString [])) = Inr hn
      \<and> toStringJS (numberToString w)
           (js_or (lookup (js_or addr (JObject [])) ''road'') (JString [])) = Inr ro
      \<and> toStringJS (numberToString w) (lookup reverseData ''lat'') = Inr rlat
      \<and> toStringJS (numberToString w) (lookup reverseData ''lon'') = Inr rlon
        \<and> res = \<lparr>nation = js_or (lookup (js_or addr (JObject [])) ''country'') (JString []),
          province = js_or (lookup (js_or addr (JObject [])) ''state'') (JString []),
          county = JString (removeCountySuffix c),
          town = js_or (lookup (js_or addr (JObject [])) ''town'')
                   (js_or (lookup (js_or addr (JObject [])) ''city'') (JString [])),
          borough = js_or (lookup (js_or addr (JObject [])) ''borough'') (JString []),
          street = JString (trim (hn @ '' '' @ ro)),
          zip_code = js_or (lookup (js_or addr (JObject [])) ''postcode'') (JString []),
          location = \<lparr>lat = parseFloat w rlat, long = parseFloat w rlon\<rparr>,
          rawResponse = NominatimRaw raw\<rparr>
        \<and> (if isReverse then
              this_location this = Some \<lparr>lat = la', long = lo'\<rparr> \<and> raw = reverseData
            else
              (\<exists>a q response forwardData hlat hlon.
                  this_address this = Some a
                \<and> encodeURIComponent w (filter (\<lambda>c. c \<noteq> CHR 0x27) a) = Inr q
                \<and> hd tr = HttpGet (SEARCH_URL @ q)
                \<and> fetch w (SEARCH_URL @ q) = Inr response
                \<and> json response = Inr forwardData
                \<and> getIndex0 forwardData = Inr raw
                \<and> toStringJS (numberToString w) (lookup raw ''lat'') = Inr hlat
                \<and> toStringJS (numberToString w) (lookup raw ''lon'') = Inr hlon
                \<and> la' = parseFloat w hlat \<and> lo' = parseFloat w hlon))))
   \<and> (this_location this = Some loc \<longrightarrow>
      filter isRequest (fst (geocodeWithNominatim w this True))
        = [HttpGet (reverseUrl w (lat loc) (long loc))])
   \<and> (this_address this = Some a \<and> a \<noteq> []
        \<and> encodeURIComponent w (filter (\<lambda>c. c \<noteq> CHR 0x27) a) = Inr q
        \<and> fetch w (SEARCH_URL @ q) = Inr response \<and> ok response
        \<and> json response = Inr forwardData \<and> truthy forwardData
        \<and> \<not> strictEqZero (lookup forwardData ''length'')
        \<and> forwardCoordinates w forwardData = Inr (la, lo) \<longrightarrow>
      filter isRequest (fst (geocodeWithNominatim w this False))
        = [HttpGet (SEARCH_URL @ q), HttpGet (reverseUrl w la lo)])
   \<and> geocode w this nominatim = geocodeWithNominatim w this False
   \<and> reverseGeocode w this nominatim = geocodeWithNominatim w this True"
proof -
  have rev: "this_location this = Some loc
      \<and> fetch w (reverseUrl w (lat loc) (long loc)) = Inr reverseResponse
      \<and> ok reverseResponse
      \<and> json reverseResponse = Inr reverseData
      \<and> getProp reverseData ''address'' = Inr addr
      \<and> js_or (lookup (js_or addr (JObject [])) ''county'') (JString []) = JString c
      \<and> toStringJS (numberToString w)
           (js_or (lookup (js_or addr (JObject [])) ''house_number'') (JString [])) = Inr hn
      \<and> toStringJS (numberToString w)
           (js_or (lookup (js_or addr (JObject [])) ''road'') (JString [])) = Inr ro
      \<and> toStringJS (numberToString w) (lookup reverseData ''lat'') = Inr rlat
      \<and> toStringJS (numberToString w) (lookup reverseData ''lon'') = Inr rlon \<longrightarrow>
    geocodeWithNominatim w this True =
      ([HttpGet (reverseUrl w (lat loc) (long loc))],
       Inr (Result \<lparr>nation = js_or (lookup (js_or addr (JObject [])) ''country'') (JString []),
          province = js_or (lookup (js_or addr (JObject [])) ''state'') (JString []),
          county = JString (removeCountySuffix c),
          town = js_or (lookup (js_or addr (JObject [])) ''town'')
                   (js_or (lookup (js_or addr (JObject [])) ''city'') (JString [])),
          borough = js_or (lookup (js_or addr (JObject [])) ''borough'') (JString []),
          street = JString (trim (hn @ '' '' @ ro)),
          zip_code = js_or (lookup (js_or addr (JObject [])) ''postcode'') (JString []),
          location = \<lparr>lat = parseFloat w rlat, long = parseFloat w rlon\<rparr>,
          rawResponse = NominatimRaw reverseData\<rparr>))"
  proof (intro impI, elim conjE)
    assume h: "this_location this = Some loc"
      "fetch w (reverseUrl w (lat loc) (long loc)) = Inr reverseResponse"
      "ok reverseResponse"
      "json reverseResponse = Inr reverseData"
    assume p: "getProp reverseData ''address'' = Inr addr"
      "js_or (lookup (js_or addr (JObject [])) ''county'') (JString []) = JString c"
      "toStringJS (numberToString w)
         (js_or (lookup (js_or addr (JObject [])) ''house_number'') (JString [])) = Inr hn"
      "toStringJS (numberToString w)
         (js_or (lookup (js_or addr (JObject [])) ''road'') (JString [])) = Inr ro"
      "toStringJS (numberToString w) (lookup reverseData ''lat'') = Inr rlat"
      "toStringJS (numberToString w) (lookup reverseData ''lon'') = Inr rlon"
    have pp: "getProp reverseData ''address'' = Inr addr
      \<and> js_or (lookup (js_or addr (JObject [])) ''county'') (JString []) = JString c
      \<and> toStringJS (numberToString w)
           (js_or (lookup (js_or addr (JObject [])) ''house_number'') (JString [])) = Inr hn
      \<and> toStringJS (numberToString w)
           (js_or (lookup (js_or addr (JObject [])) ''road'') (JString [])) = Inr ro
      \<and> toStringJS (numberToString w) (lookup reverseData ''lat'') = Inr rlat
      \<and> toStringJS (numberToString w) (lookup reverseData ''lon'') = Inr rlon"
      by (intro conjI) (rule p)+
    show "geocodeWithNominatim w this True =
      ([HttpGet (reverseUrl w (lat loc) (long loc))],
       Inr (Result \<lparr>nation = js_or (lookup (js_or addr (JObject [])) ''country'') (JString []),
          province = js_or (lookup (js_or addr (JObject [])) ''state'') (JString []),
          county = JString (removeCountySuffix c),
          town = js_or (lookup (js_or addr (JObject [])) ''town'')
                   (js_or (lookup (js_or addr (JObject [])) ''city'') (JString [])),
          borough = js_or (lookup (js_or addr (JObject [])) ''borough'') (JString []),
          street = JString (trim (hn @ '' '' @ ro)),
          zip_code = js_or (lookup (js_or addr (JObject [])) ''postcode'') (JString []),
          location = \<lparr>lat = parseFloat w rlat, long = parseFloat w rlon\<rparr>,
          rawResponse = NominatimRaw reverseData\<rparr>))"
      by (rule reverse_mode_total [OF h pp])
  qed
  have fwd: "this_address this = Some a \<and> a \<noteq> []
      \<and> encodeURIComponent w (filter (\<lambda>c. c \<noteq> CHR 0x27) a) = Inr q
      \<and> fetch w (SEARCH_URL @ q) = Inr response
      \<and> ok response
      \<and> json response = Inr forwardData
      \<and> truthy forwardData
      \<and> \<not> strictEqZero (lookup forwardData ''length'')
      \<and> getIndex0 forwardData = Inr hit \<and> hit \<noteq> JUndefined \<and> hit \<noteq> JNull
      \<and> toStringJS (numberToString w) (lookup hit ''lat'') = Inr hlat
      \<and> toStringJS (numberToString w) (lookup hit ''lon'') = Inr hlon
      \<and> fetch w (reverseUrl w (parseFloat w hlat) (parseFloat w hlon)) = Inr reverseResponse
      \<and> ok reverseResponse
      \<and> json reverseResponse = Inr reverseData
      \<and> getProp reverseData ''address'' = Inr addr
      \<and> js_or (lookup (js_or addr (JObject [])) ''county'') (JString []) = JString c
      \<and> toStringJS (numberToString w)
           (js_or (lookup (js_or addr (JObject [])) ''house_number'') (JString [])) = Inr hn
      \<and> toStringJS (numberToString w)
           (js_or (lookup (js_or addr (JObject [])) ''road'') (JString [])) = Inr ro
      \<and> toStringJS (numberToString w) (lookup reverseData ''lat'') = Inr rlat
      \<and> toStringJS (numberToString w) (lookup reverseData ''lon'') = Inr rlon \<longrightarrow>
    geocodeWithNominatim w this False =
      ([HttpGet (SEARCH_URL @ q),
        HttpGet (reverseUrl w (parseFloat w hlat) (parseFloat w hlon))],
       Inr (Result \<lparr>nation = js_or (lookup (js_or addr (JObject [])) ''country'') (JString []),
          province = js_or (lookup (js_or addr (JObject [])) ''state'') (JString []),
          county = JString (removeCountySuffix c),
          town = js_or (lookup (js_or addr (JObject [])) ''town'')
                   (js_or (lookup (js_or addr (JObject [])) ''city'') (JString [])),
          borough = js_or (lookup (js_or addr (JObject [])) ''borough'') (JString []),
          street = JString (trim (hn @ '' '' @ ro)),
          zip_code = js_or (lookup (js_or addr (JObject [])) ''postcode'') (JString []),
          location = \<lparr>lat = parseFloat w rlat, long = parseFloat w rlon\<rparr>,
          rawResponse = NominatimRaw hit\<rparr>))"
  proof (intro impI, elim conjE)
    assume h: "this_address this = Some a" "a \<noteq> []"
      "encodeURIComponent w (filter (\<lambda>c. c \<noteq> CHR 0x27) a) = Inr q"
      "fetch w (SEARCH_URL @ q) = Inr response"
      "ok response"
      "json response = Inr forwardData"
      "truthy forwardData"
      "\<not> strictEqZero (lookup forwardData ''length'')"
    assume g: "getIndex0 forwardData = Inr hit" "hit \<noteq> JUndefined" "hit \<noteq> JNull"
      "toStringJS (numberToString w) (lookup hit ''lat'') = Inr hlat"
      "toStringJS (numberToString w) (lookup hit ''lon'') = Inr hlon"
    assume r: "fetch w (reverseUrl w (parseFloat w hlat) (parseFloat w hlon)) = Inr reverseResponse"
      "ok reverseResponse"
      "json reverseResponse = Inr reverseData"
    assume p: "getProp reverseData ''address'' = Inr addr"
      "js_or (lookup (js_or addr (JObject [])) ''county'') (JString []) = JString c"
      "toStringJS (numberToString w)
         (js_or (lookup (js_or addr (JObject [])) ''house_number'') (JString [])) = Inr hn"
      "toStringJS (numberToString w)
         (js_or (lookup (js_or addr (JObject [])) ''road'') (JString [])) = Inr ro"
      "toStringJS (numberToString w) (lookup reverseData ''lat'') = Inr rlat"
      "toStringJS (numberToString w) (lookup reverseData ''lon'') = Inr rlon"
    have pp: "getProp reverseData ''address'' = Inr addr
      \<and> js_or (lookup (js_or addr (JObject [])) ''county'') (JString []) = JString c
      \<and> toStringJS (numberToString w)
           (js_or (lookup (js_or addr (JObject [])) ''house_number'') (JString [])) = Inr hn
      \<and> toStringJS (numberToString w)
           (js_or (lookup (js_or addr (JObject [])) ''road'') (JString [])) = Inr ro
      \<and> toStringJS (numberToString w) (lookup reverseData ''lat'') = Inr rlat
      \<and> toStringJS (numberToString w) (lookup reverseData ''lon'') = Inr rlon"
      by (intro conjI) (rule p)+
    have gg: "getIndex0 forwardData = Inr hit \<and> hit \<noteq> JUndefined \<and> hit \<noteq> JNull
      \<and> toStringJS (numberToString w) (lookup hit ''lat'') = Inr hlat
      \<and> toStringJS (numberToString w) (lookup hit ''lon'') = Inr hlon"
      by (intro conjI) (rule g)+
    show "geocodeWithNominatim w this False =
      ([HttpGet (SEARCH_URL @ q),
        HttpGet (reverseUrl w (parseFloat w hlat) (parseFloat w hlon))],
       Inr (Result \<lparr>nation = js_or (lookup (js_or addr (JObject [])) ''country'') (JString []),
          province = js_or (lookup (js_or addr (JObject [])) ''state'') (JString []),
          county = JString (removeCountySuffix c),
          town = js_or (lookup (js_or addr (JObject [])) ''town'')
                   (js_or (lookup (js_or addr (JObject [])) ''city'') (JString [])),
          borough = js_or (lookup (js_or addr (JObject [])) ''borough'') (JString []),
          street = JString (trim (hn @ '' '' @ ro)),
          zip_code = js_or (lookup (js_or addr (JObject [])) ''postcode'') (JString []),
          location = \<lparr>lat = parseFloat w rlat, long = parseFloat w rlon\<rparr>,
          rawResponse = NominatimRaw hit\<rparr>))"
      by (rule forward_mode_total [OF h gg r pp])
  qed
  have conv: "geocodeWithNominatim w this isReverse = (tr, Inr (Result res)) \<longrightarrow>
       (\<exists>la' lo' reverseResponse reverseData addr c hn ro rlat rlon raw.
          last tr = HttpGet (reverseUrl w la' lo')
        \<and> fetch w (reverseUrl w la' lo') = Inr reverseResponse
        \<and> ok reverseResponse
        \<and> json reverseResponse = Inr reverseData
        \<and> getProp reverseData ''address'' = Inr addr
      \<and> js_or (lookup (js_or addr (JObject [])) ''county'') (JString []) = JString c
      \<and> toStringJS (numberToString w)
           (js_or (lookup (js_or addr (JObject [])) ''house_number'') (JString [])) = Inr hn
      \<and> toStringJS (numberToString w)
           (js_or (lookup (js_or addr (JObject [])) ''road'') (JString [])) = Inr ro
      \<and> toStringJS (numberToString w) (lookup reverseData ''lat'') = Inr rlat
      \<and> toStringJS (numberToString w) (lookup reverseData ''lon'') = Inr rlon
        \<and> res = \<lparr>nation = js_or (lookup (js_or addr (JObject [])) ''country'') (JString []),
          province = js_or (lookup (js_or addr (JObject [])) ''state'') (JString []),
          county = JString (removeCountySuffix c),
          town = js_or (lookup (js_or addr (JObject [])) ''town'')
                   (js_or (lookup (js_or addr (JObject [])) ''city'') (JString [])),
          borough = js_or (lookup (js_or addr (JObject [])) ''borough'') (JString []),
          street = JString (trim (hn @ '' '' @ ro)),
          zip_code = js_or (lookup (js_or addr (JObject [])) ''postcode'') (JString []),
          location = \<lparr>lat = parseFloat w rlat, long = parseFloat w rlon\<rparr>,
          rawResponse = NominatimRaw raw\<rparr>
        \<and> (if isReverse then
              this_location this = Some \<lparr>lat = la', long = lo'\<rparr> \<and> raw = reverseData
            else
              (\<exists>a q response forwardData hlat hlon.
                  this_address this = Some a
                \<and> encodeURIComponent w (filter (\<lambda>c. c \<noteq> CHR 0x27) a) = Inr q
                \<and> hd tr = HttpGet (SEARCH_URL @ q)
                \<and> fetch w (SEARCH_URL @ q) = Inr response
                \<and> json response = Inr forwardData
                \<and> getIndex0 forwardData = Inr raw
                \<and> toStringJS (numberToString w) (lookup raw ''lat'') = Inr hlat
                \<and> toStringJS (numberToString w) (lookup raw ''lon'') = Inr hlon
                \<and> la' = parseFloat w hlat \<and> lo' = parseFloat w hlon)))"
    by (intro impI) (rule nominatim_success_fields)
  have rq: "this_location this = Some loc \<longrightarrow>
      filter isRequest (fst (geocodeWithNominatim w this True))
        = [HttpGet (reverseUrl w (lat loc) (long loc))]"
    by (intro impI) (rule reverse_mode_request)
  have fq: "this_address this = Some a \<and> a \<noteq> []
        \<and> encodeURIComponent w (filter (\<lambda>c. c \<noteq> CHR 0x27) a) = Inr q
        \<and> fetch w (SEARCH_URL @ q) = Inr response \<and> ok response
        \<and> json response = Inr forwardData \<and> truthy forwardData
        \<and> \<not> strictEqZero (lookup forwardData ''length'')
        \<and> forwardCoordinates w forwardData = Inr (la, lo) \<longrightarrow>
      filter isRequest (fst (geocodeWithNominatim w this False))
        = [HttpGet (SEARCH_URL @ q), HttpGet (reverseUrl w la lo)]"
  proof (intro impI, elim conjE)
    assume h: "this_address this = Some a" "a \<noteq> []"
      "encodeURIComponent w (filter (\<lambda>c. c \<noteq> CHR 0x27) a) = Inr q"
      "fetch w (SEARCH_URL @ q) = Inr response"
      "ok response"
      "json response = Inr forwardData"
      "truthy forwardData"
      "\<not> strictEqZero (lookup forwardData ''length'')"
      "forwardCoordinates w forwardData = Inr (la, lo)"
    show "filter isRequest (fst (geocodeWithNominatim w this False))
        = [HttpGet (SEARCH_URL @ q), HttpGet (reverseUrl w la lo)]"
      by (rule forward_mode_requests [OF h])
  qed
  show ?thesis
    by (intro conjI) (rule rev fwd conv rq fq geocode_nominatim reverseGeocode_nominatim)+
qed

text \<open>
  The theorem on the sample lookups: the reverse lookup of the pair 38.9, -77, and
  the forward lookup of \<^verbatim>\<open>White House\<close>, whose search hit has a
  \<^verbatim>\<open>display_name\<close> and no address, so that every address field of the result is
  from the reverse payload.
\<close>

theorem nominatim_fields_from_reverse_lookup_witness:
  "geocodeWithNominatim (sampleWorld None ''OK'')
       (locationGeocoder (Finite 38.9) (Finite (- 77))) True
     = ([HttpGet ''https://nominatim.openstreetmap.org/reverse?format=json&lat=38.9&lon=-77''],
        Inr (Result sampleReverseResult))
   \<and> geocodeWithNominatim (sampleWorld None ''OK'') (addressGeocoder ''White House'') False
     = ([HttpGet ''https://nominatim.openstreetmap.org/search?format=json&q=White%20House'',
         HttpGet ''https://nominatim.openstreetmap.org/reverse?format=json&lat=38.9&lon=-77''],
        Inr (Result sampleForwardResult))
   \<and> filter isRequest (fst (geocodeWithNominatim (sampleWorld None ''OK'')
       (locationGeocoder (Finite 38.9) (Finite (- 77))) True))
     = [HttpGet ''https://nominatim.openstreetmap.org/reverse?format=json&lat=38.9&lon=-77'']
   \<and> filter isRequest (fst (geocodeWithNominatim (sampleWorld None ''OK'')
       (addressGeocoder ''White House'') False))
     = [HttpGet ''https://nominatim.openstreetmap.org/search?format=json&q=White%20House'',
        HttpGet ''https://nominatim.openstreetmap.org/reverse?format=json&lat=38.9&lon=-77'']
   \<and> (\<exists>la' lo' reverseResponse reverseData addr c hn ro rlat rlon raw.
          last [HttpGet ''https://nominatim.openstreetmap.org/search?format=json&q=White%20House'',
             HttpGet ''https://nominatim.openstreetmap.org/reverse?format=json&lat=38.9&lon=-77''] = HttpGet (reverseUrl (sampleWorld None ''OK'') la' lo')
        \<and> fetch (sampleWorld None ''OK'') (reverseUrl (sampleWorld None ''OK'') la' lo') = Inr reverseResponse
        \<and> ok reverseResponse
        \<and> json reverseResponse = Inr reverseData
        \<and> getProp reverseData ''address'' = Inr addr
      \<and> js_or (lookup (js_or addr (JObject [])) ''county'') (JString []) = JString c
      \<and> toStringJS (numberToString (sampleWorld None ''OK''))
           (js_or (lookup (js_or addr (JObject [])) ''house_number'') (JString [])) = Inr hn
      \<and> toStringJS (numberToString (sampleWorld None ''OK''))
           (js_or (lookup (js_or addr (JObject [])) ''road'') (JString [])) = Inr ro
      \<and> toStringJS (numberToString (sampleWorld None ''OK'')) (lookup reverseData ''lat'') = Inr rlat
      \<and> toStringJS (numberToString (sampleWorld None ''OK'')) (lookup reverseData ''lon'') = Inr rlon
        \<and> sampleForwardResult = \<lparr>nation = js_or (lookup (js_or addr (JObject [])) ''country'') (JString []),
          province = js_or (lookup (js_or addr (JObject [])) ''state'') (JString []),
          county = JString (removeCountySuffix c),
          town = js_or (lookup (js_or addr (JObject [])) ''town'')
                   (js_or (lookup (js_or addr (JObject [])) ''city'') (JString [])),
          borough = js_or (lookup (js_or addr (JObject [])) ''borough'') (JString []),
          street = JString (trim (hn @ '' '' @ ro)),
          zip_code = js_or (lookup (js_or addr (JObject [])) ''postcode'') (JString []),
          location = \<lparr>lat = parseFloat (sampleWorld None ''OK'') rlat, long = parseFloat (sampleWorld None ''OK'') rlon\<rparr>,
          rawResponse = NominatimRaw raw\<rparr>
        \<and> (\<exists>a q response forwardData hlat hlon.
                  this_address (addressGeocoder ''White House'') = Some a
                \<and> encodeURIComponent (sampleWorld None ''OK'') (filter (\<lambda>c. c \<noteq> CHR 0x27) a) = Inr q
                \<and> hd [HttpGet ''https://nominatim.openstreetmap.org/search?format=json&q=White%20House'',
             HttpGet ''https://nominatim.openstreetmap.org/reverse?format=json&lat=38.9&lon=-77''] = HttpGet (SEARCH_URL @ q)
                \<and> fetch (sampleWorld None ''OK'') (SEARCH_URL @ q) = Inr response
                \<and> json response = Inr forwardData
                \<and> getIndex0 forwardData = Inr raw
                \<and> toStringJS (numberToString (sampleWorld None ''OK'')) (lookup raw ''lat'') = Inr hlat
                \<and> toStringJS (numberToString (sampleWorld None ''OK'')) (lookup raw ''lon'') = Inr hlon
                \<and> la' = parseFloat (sampleWorld None ''OK'') hlat \<and> lo' = parseFloat (sampleWorld None ''OK'') hlon))"
proof -
  note inst_r = nominatim_fields_from_reverse_lookup [where w = "sampleWorld None ''OK''"
      and this = "locationGeocoder (Finite 38.9) (Finite (- 77))"
      and loc = "\<lparr>lat = Finite 38.9, long = Finite (- 77)\<rparr>"
      and reverseResponse = "\<lparr>ok = True, http_status = Finite 200, json = Inr sampleReverseData\<rparr>"
      and reverseData = sampleReverseData and addr = sampleAddress
      and c = "''Loudoun County''" and hn = "''1600''" and ro = "''Pennsylvania Avenue NW''"
      and rlat = "''38.9''" and rlon = "''-77''"]
  note inst_f = nominatim_fields_from_reverse_lookup [where w = "sampleWorld None ''OK''"
      and this = "addressGeocoder ''White House''" and a = "''White House''"
      and q = "''White%20House''"
      and response = "\<lparr>ok = True, http_status = Finite 200, json = Inr sampleForwardData\<rparr>"
      and forwardData = sampleForwardData and hit = sampleHit
      and hlat = "''38.9''" and hlon = "''-77''"
      and la = "Finite 38.9" and lo = "Finite (- 77)"
      and reverseResponse = "\<lparr>ok = True, http_status = Finite 200, json = Inr sampleReverseData\<rparr>"
      and reverseData = sampleReverseData and addr = sampleAddress
      and c = "''Loudoun County''" and hn = "''1600''" and ro = "''Pennsylvania Avenue NW''"
      and rlat = "''38.9''" and rlon = "''-77''"
      and isReverse = False
      and tr = "[HttpGet ''https://nominatim.openstreetmap.org/search?format=json&q=White%20House'',
         HttpGet ''https://nominatim.openstreetmap.org/reverse?format=json&lat=38.9&lon=-77'']"
      and res = sampleForwardResult]
  have r: "geocodeWithNominatim (sampleWorld None ''OK'')
       (locationGeocoder (Finite 38.9) (Finite (- 77))) True
     = ([HttpGet ''https://nominatim.openstreetmap.org/reverse?format=json&lat=38.9&lon=-77''],
        Inr (Result sampleReverseResult))"
    using inst_r [THEN conjunct1]
    by (simp add: payload_defs sample_defs sampleReverseResult_def)
  have f: "geocodeWithNominatim (sampleWorld None ''OK'') (addressGeocoder ''White House'') False
     = ([HttpGet ''https://nominatim.openstreetmap.org/search?format=json&q=White%20House'',
         HttpGet ''https://nominatim.openstreetmap.org/reverse?format=json&lat=38.9&lon=-77''],
        Inr (Result sampleForwardResult))"
    using inst_f [THEN conjunct2, THEN conjunct1]
    by (simp add: payload_defs sample_defs sampleForwardResult_def)
  have rq: "filter isRequest (fst (geocodeWithNominatim (sampleWorld None ''OK'')
       (locationGeocoder (Finite 38.9) (Finite (- 77))) True))
     = [HttpGet ''https://nominatim.openstreetmap.org/reverse?format=json&lat=38.9&lon=-77'']"
    using inst_r [THEN conjunct2, THEN conjunct2, THEN conjunct2, THEN conjunct1]
    by (simp add: payload_defs sample_defs)
  have fq: "filter isRequest (fst (geocodeWithNominatim (sampleWorld None ''OK'')
       (addressGeocoder ''White House'') False))
     = [HttpGet ''https://nominatim.openstreetmap.org/search?format=json&q=White%20House'',
        HttpGet ''https://nominatim.openstreetmap.org/reverse?format=json&lat=38.9&lon=-77'']"
    using inst_f [THEN conjunct2, THEN conjunct2, THEN conjunct2, THEN conjunct2, THEN conjunct1]
    by (simp add: payload_defs sample_defs forwardCoordinates_def jsParseFloat_def)
  from inst_f [THEN conjunct2, THEN conjunct2, THEN conjunct1, THEN mp, OF f]
  have cv: "(\<exists>la' lo' reverseResponse reverseData addr c hn ro rlat rlon raw.
          last [HttpGet ''https://nominatim.openstreetmap.org/search?format=json&q=White%20House'',
             HttpGet ''https://nominatim.openstreetmap.org/reverse?format=json&lat=38.9&lon=-77''] = HttpGet (reverseUrl (sampleWorld None ''OK'') la' lo')
        \<and> fetch (sampleWorld None ''OK'') (reverseUrl (sampleWorld None ''OK'') la' lo') = Inr reverseResponse
        \<and> ok reverseResponse
        \<and> json reverseResponse = Inr reverseData
        \<and> getProp reverseData ''address'' = Inr addr
      \<and> js_or (lookup (js_or addr (JObject [])) ''county'') (JString []) = JString c
      \<and> toStringJS (numberToString (sampleWorld None ''OK''))
           (js_or (lookup (js_or addr (JObject [])) ''house_number'') (JString [])) = Inr hn
      \<and> toStringJS (numberToString (sampleWorld None ''OK''))
           (js_or (lookup (js_or addr (JObject [])) ''road'') (JString [])) = Inr ro
      \<and> toStringJS (numberToString (sampleWorld None ''OK'')) (lookup reverseData ''lat'') = Inr rlat
      \<and> toStringJS (numberToString (sampleWorld None ''OK'')) (lookup reverseData ''lon'') = Inr rlon
        \<and> sampleForwardResult = \<lparr>nation = js_or (lookup (js_or addr (JObject [])) ''country'') (JString []),
          province = js_or (lookup (js_or addr (JObject [])) ''state'') (JString []),
          county = JString (removeCountySuffix c),
          town = js_or (lookup (js_or addr (JObject [])) ''town'')
                   (js_or (lookup (js_or addr (JObject [])) ''city'') (JString [])),
          borough = js_or (lookup (js_or addr (JObject [])) ''borough'') (JString []),
          street = JString (trim (hn @ '' '' @ ro)),
          zip_code = js_or (lookup (js_or addr (JObject [])) ''postcode'') (JString []),
          location = \<lparr>lat = parseFloat (sampleWorld None ''OK'') rlat, long = parseFloat (sampleWorld None ''OK'') rlon\<rparr>,
          rawResponse = NominatimRaw raw\<rparr>
        \<and> (\<exists>a q response forwardData hlat hlon.
                  this_address (addressGeocoder ''White House'') = Some a
                \<and> encodeURIComponent (sampleWorld None ''OK'') (filter (\<lambda>c. c \<noteq> CHR 0x27) a) = Inr q
                \<and> hd [HttpGet ''https://nominatim.openstreetmap.org/search?format=json&q=White%20House'',
             HttpGet ''https://nominatim.openstreetmap.org/reverse?format=json&lat=38.9&lon=-77''] = HttpGet (SEARCH_URL @ q)
                \<and> fetch (sampleWorld None ''OK'') (SEARCH_URL @ q) = Inr response
                \<and> json response = Inr forwardData
                \<and> getIndex0 forwardData = Inr raw
                \<and> toStringJS (numberToString (sampleWorld None ''OK'')) (lookup raw ''lat'') = Inr hlat
                \<and> toStringJS (numberToString (sampleWorld None ''OK'')) (lookup raw ''lon'') = Inr hlon
                \<and> la' = parseFloat (sampleWorld None ''OK'') hlat \<and> lo' = parseFloat (sampleWorld None ''OK'') hlon))"
    by (simp only: if_False)
  show ?thesis
    by (intro conjI) (rule r f rq fq cv)+
qed

text \<open>
  C6, as amended. \<open>removeCountySuffix\<close> removes one trailing \<^verbatim>\<open>" County"\<close>:
  applying it twice gives the same as applying it once exactly for the strings that
  do not end in \<^verbatim>\<open>" County County"\<close>. It is exact on the two examples
  (\<^verbatim>\<open>"Loudoun County"\<close> gives \<^verbatim>\<open>"Loudoun"\<close>, and \<^verbatim>\<open>"Loudoun"\<close> is unchanged), and
  the county of a result is the value of this one function in both the Google and
  the Nominatim normaliser.
\<close>

theorem removeCountySuffix_strips_one_suffix:
  "(removeCountySuffix (removeCountySuffix s) = removeCountySuffix s)
      = (\<not> endsWith s '' County County'')
   \<and> removeCountySuffix ''Loudoun County'' = ''Loudoun''
   \<and> removeCountySuffix ''Loudoun'' = ''Loudoun''
   \<and> county (googleResult r) =
       JString (removeCountySuffix (orEmpty (googleComponents r ''administrative_area_level_2'')))
   \<and> (nominatimResult w forwardData reverseData = Inr res \<longrightarrow>
        (\<exists>a c. getProp reverseData ''address'' = Inr a
           \<and> js_or (lookup (js_or a (JObject [])) ''county'') (JString []) = JString c
           \<and> county res = JString (removeCountySuffix c)))"
proof -
  have "(removeCountySuffix (removeCountySuffix s) = removeCountySuffix s)
      = (\<not> endsWith s '' County County'')"
    using removeCountySuffix_twice [of s] by (simp add: COUNTY_SUFFIX_def)
  moreover have "removeCountySuffix ''Loudoun County'' = ''Loudoun''"
    by (simp add: removeCountySuffix_def endsWith_def sliceDropLast_def COUNTY_SUFFIX_def)
  moreover have "removeCountySuffix ''Loudoun'' = ''Loudoun''"
    by (simp add: removeCountySuffix_def endsWith_def sliceDropLast_def COUNTY_SUFFIX_def)
  moreover have "county (googleResult r) =
       JString (removeCountySuffix (orEmpty (googleComponents r ''administrative_area_level_2'')))"
    by (simp add: googleResult_def Let_def)
  moreover have "nominatimResult w forwardData reverseData = Inr res \<longrightarrow>
        (\<exists>a c. getProp reverseData ''address'' = Inr a
           \<and> js_or (lookup (js_or a (JObject [])) ''county'') (JString []) = JString c
           \<and> county res = JString (removeCountySuffix c))"
  proof
    assume "nominatimResult w forwardData reverseData = Inr res"
    then show "\<exists>a c. getProp reverseData ''address'' = Inr a
           \<and> js_or (lookup (js_or a (JObject [])) ''county'') (JString []) = JString c
           \<and> county res = JString (removeCountySuffix c)"
      by (rule nominatimResult_Inr) auto
  qed
  ultimately show ?thesis by blast
qed

text \<open>
  The theorem at a county with one suffix, a Google result and a Nominatim lookup.
\<close>

theorem removeCountySuffix_strips_one_suffix_witness:
  "removeCountySuffix (removeCountySuffix ''Loudoun County'') = removeCountySuffix ''Loudoun County''
   \<and> county (googleResult routeOnlyResult) = JString ''Loudoun''
   \<and> (\<exists>a c. getProp sampleReverseData ''address'' = Inr a
         \<and> js_or (lookup (js_or a (JObject [])) ''county'') (JString []) = JString c
         \<and> removeCountySuffix c = ''Loudoun'')"
proof -
  note inst = removeCountySuffix_strips_one_suffix [of "''Loudoun County''" routeOnlyResult
      "sampleWorld None ''OK''" JNull sampleReverseData
      sampleReverseResult]
  have e: "\<not> endsWith ''Loudoun County'' '' County County''"
    by (simp add: endsWith_def)
  have g: "orEmpty (googleComponents routeOnlyResult ''administrative_area_level_2'') = ''Loudoun County''"
    by (simp add: googleComponents_def routeOnlyResult_def orEmpty_def)
  from inst e have "removeCountySuffix (removeCountySuffix ''Loudoun County'') = removeCountySuffix ''Loudoun County''"
    by blast
  moreover from inst g have "county (googleResult routeOnlyResult) = JString ''Loudoun''"
    by simp
  moreover
  have "\<exists>a c. getProp sampleReverseData ''address'' = Inr a
         \<and> js_or (lookup (js_or a (JObject [])) ''county'') (JString []) = JString c
         \<and> removeCountySuffix c = ''Loudoun''"
  proof -
    from inst [THEN conjunct2, THEN conjunct2, THEN conjunct2, THEN conjunct2, THEN mp,
        OF sample_nominatimResult]
    obtain a c where a: "getProp sampleReverseData ''address'' = Inr a"
      and c: "js_or (lookup (js_or a (JObject [])) ''county'') (JString []) = JString c"
      and k: "county sampleReverseResult = JString (removeCountySuffix c)"
      by (elim exE conjE)
    from k have "removeCountySuffix c = ''Loudoun''"
      by (simp add: sampleReverseResult_def)
    with a c show ?thesis
      by (intro exI conjI)
  qed
  ultimately show ?thesis
    by (intro conjI)
qed

text \<open>
  C6 as stated fails: on a string with the suffix twice, the second application
  removes the second suffix.
\<close>

theorem removeCountySuffix_not_idempotent:
  "removeCountySuffix (removeCountySuffix ''Loudoun County County'')
     \<noteq> removeCountySuffix ''Loudoun County County''"
  by (simp add: removeCountySuffix_def endsWith_def sliceDropLast_def COUNTY_SUFFIX_def)

text \<open>
  C7 fails on the code for the Google provider. The Nominatim adapter trims the
  joined street, the Google adapter does not: for a first result with a route and no
  street number the street is the route after a space, where the trimmed join is the
  route alone.
\<close>

theorem google_street_keeps_leading_space:
  "snd (geocode (sampleWorld (Some [routeOnlyResult]) ''OK'') (addressGeocoder ''Main Street'') google)
     = Inr (Result (googleResult routeOnlyResult))
   \<and> googleComponents routeOnlyResult ''street_number'' = None
   \<and> googleComponents routeOnlyResult ''route'' = Some ''Main Street''
   \<and> street (googleResult routeOnlyResult) = JString '' Main Street''
   \<and> trim ('''' @ '' '' @ ''Main Street'') = ''Main Street''"
  by (simp add: model_defs sample_defs)

text \<open>
  C8 fails on the code for the street of the Google provider, by the same missing
  \<^verbatim>\<open>trim\<close>: for a first result with neither a street number nor a route the street is
  one space, not the empty string.
\<close>

theorem google_street_blank_without_components:
  "snd (geocode (sampleWorld (Some [cityResult]) ''OK'') (addressGeocoder ''Washington'') google)
     = Inr (Result (googleResult cityResult))
   \<and> googleComponents cityResult ''street_number'' = None
   \<and> googleComponents cityResult ''route'' = None
   \<and> nation (googleResult cityResult) = JString ''United States''
   \<and> town (googleResult cityResult) = JString ''Washington''
   \<and> zip_code (googleResult cityResult) = JString []
   \<and> street (googleResult cityResult) = JString '' ''"
  by (simp add: model_defs sample_defs)

text \<open>
  C9. When a Geocoder holds a non-empty address, and the search endpoint answers its
  query with an \<^verbatim>\<open>ok\<close> response whose JSON is the empty array or \<^verbatim>\<open>null\<close>, then
  \<open>geocode\<close> with the Nominatim provider returns exactly the message
  \<^verbatim>\<open>Nominatim Forward Geocoding failed: No results found\<close>, after that one request.
\<close>

theorem nominatim_search_without_results:
  assumes "this_address this = Some a" and "a \<noteq> []"
    and "encodeURIComponent w (filter (\<lambda>c. c \<noteq> CHR 0x27) a) = Inr q"
    and "fetch w (SEARCH_URL @ q) = Inr response"
    and "ok response"
    and "json response = Inr forwardData"
    and "forwardData = JArray [] \<or> forwardData = JNull"
  shows "geocode w this nominatim =
     ([HttpGet (SEARCH_URL @ q),
       ConsoleError ''Nominatim Forward Geocoding failed: No results found'' NoArg],
      Inr (Message ''Nominatim Forward Geocoding failed: No results found''))"
proof -
  from assms(7) have "\<not> truthy forwardData \<or> strictEqZero (lookup forwardData ''length'')"
    by (auto simp: strictEqZero_def lookup_def)
  with assms(3-6) have "nominatimForward w a =
     ([HttpGet (SEARCH_URL @ q),
       ConsoleError ''Nominatim Forward Geocoding failed: No results found'' NoArg],
      Inr (Message ''Nominatim Forward Geocoding failed: No results found''))"
    by (rule nominatimForward_no_results)
  with assms(1,2) show ?thesis
    by (simp add: geocode_nominatim geocodeWithNominatim_def nominatimTry_def)
qed

text \<open>
  The theorem for a query the sample search endpoint answers with an empty array.
\<close>

theorem nominatim_search_without_results_witness:
  "geocode (sampleWorld None ''OK'') (addressGeocoder ''Nowhere'') nominatim =
     ([HttpGet ''https://nominatim.openstreetmap.org/search?format=json&q=Nowhere'',
       ConsoleError ''Nominatim Forward Geocoding failed: No results found'' NoArg],
      Inr (Message ''Nominatim Forward Geocoding failed: No results found''))"
proof -
  have "fetch (sampleWorld None ''OK'') (SEARCH_URL @ ''Nowhere'')
          = Inr \<lparr>ok = True, http_status = Finite 200, json = Inr (JArray [])\<rparr>"
    by (simp add: sampleWorld_def sampleFetch_def SEARCH_URL_def)
  from nominatim_search_without_results [of "addressGeocoder ''Nowhere''" "''Nowhere''"
      "sampleWorld None ''OK''" "''Nowhere''", OF _ _ _ this]
  show ?thesis
    by (simp add: addressGeocoder_def sampleWorld_def SEARCH_URL_def
        sampleEncodeURIComponent_def encodeUnit_def isUnreserved_def)
qed

text \<open>
  C10, as amended. Constructing a Geocoder from the empty string succeeds. \<open>geocode\<close>
  on it returns \<^verbatim>\<open>No address provided for forward geocoding\<close>, with nothing logged,
  when the provider is Nominatim, or is Google and the Google Maps library is
  loaded. With either provider and in every environment it issues no provider
  request. When the construction of the Google client throws, \<open>geocode\<close> with the
  Google provider returns \<^verbatim>\<open>Forward Geocoding error with google: ...\<close> with the
  error's message.
\<close>

theorem empty_address_is_mode_mismatch:
  "newGeocoder (AddressArg []) = Inr (addressGeocoder [])
   \<and> (p = nominatim \<or> newGoogleGeocoder w = Inr () \<longrightarrow>
        geocode w (addressGeocoder []) p
          = ([], Inr (Message ''No address provided for forward geocoding'')))
   \<and> filter isRequest (fst (geocode w (addressGeocoder []) p)) = []
   \<and> (newGoogleGeocoder w = Inl e \<longrightarrow>
        snd (geocode w (addressGeocoder []) google)
          = Inr (Message (''Forward Geocoding error with google: '' @ errorMessage e)))"
proof -
  have a: "this_address (addressGeocoder []) = None \<or> this_address (addressGeocoder []) = Some []"
    by (simp add: addressGeocoder_def)
  have "newGoogleGeocoder w = Inl e \<longrightarrow>
        snd (geocode w (addressGeocoder []) google)
          = Inr (Message (''Forward Geocoding error with google: '' @ errorMessage e))"
    using geocode_google_throws [of w "addressGeocoder []" e]
    by (auto simp: geocodeWithGoogle_unloaded)
  moreover have "newGeocoder (AddressArg []) = Inr (addressGeocoder [])"
    by (simp add: newGeocoder_def addressGeocoder_def)
  moreover have "p = nominatim \<or> newGoogleGeocoder w = Inr () \<longrightarrow>
        geocode w (addressGeocoder []) p
          = ([], Inr (Message ''No address provided for forward geocoding''))"
    using mismatch_forward [OF a, of p w] by auto
  moreover have "filter isRequest (fst (geocode w (addressGeocoder []) p)) = []"
    using mismatch_forward_quiet [OF a, of w p] by auto
  ultimately show ?thesis
    by simp
qed

text \<open>
  The theorem in the sample environment with the Google provider, and without the
  Google Maps library with both providers.
\<close>

theorem empty_address_is_mode_mismatch_witness:
  "geocode (sampleWorld (Some [routeOnlyResult]) ''OK'') (addressGeocoder []) google
     = ([], Inr (Message ''No address provided for forward geocoding''))
   \<and> geocode unloadedWorld (addressGeocoder []) nominatim
     = ([], Inr (Message ''No address provided for forward geocoding''))
   \<and> snd (geocode unloadedWorld (addressGeocoder []) google)
     = Inr (Message ''Forward Geocoding error with google: google is not defined'')"
proof -
  have l: "newGoogleGeocoder (sampleWorld (Some [routeOnlyResult]) ''OK'') = Inr ()"
    by (simp add: sampleWorld_def)
  have u: "newGoogleGeocoder unloadedWorld = Inl (Error ''google is not defined'')"
    by (simp add: unloadedWorld_def)
  from l empty_address_is_mode_mismatch [where w = "sampleWorld (Some [routeOnlyResult]) ''OK''"
      and p = google]
  have "geocode (sampleWorld (Some [routeOnlyResult]) ''OK'') (addressGeocoder []) google
     = ([], Inr (Message ''No address provided for forward geocoding''))"
    by simp
  moreover
  from u empty_address_is_mode_mismatch [where w = unloadedWorld and p = nominatim
      and e = "Error ''google is not defined''"]
  have "geocode unloadedWorld (addressGeocoder []) nominatim
     = ([], Inr (Message ''No address provided for forward geocoding''))
   \<and> snd (geocode unloadedWorld (addressGeocoder []) google)
     = Inr (Message ''Forward Geocoding error with google: google is not defined'')"
    by (simp add: errorMessage_def)
  ultimately show ?thesis by blast
qed

text \<open>
  C10 as stated fails for the Google provider when the Google Maps library is not
  loaded: the construction of the client throws before the address is tested, and
  \<open>geocode\<close> on the Geocoder of the empty string returns the message of the
  \<^verbatim>\<open>catch\<close> block, which does not contain the mismatch message.
\<close>

theorem empty_address_needs_google_library:
  "newGeocoder (AddressArg []) = Inr (addressGeocoder [])
   \<and> geocode unloadedWorld (addressGeocoder []) google
     = ([ConsoleError ''Forward Geocoding error with google''
           (ErrorArg (Error ''google is not defined''))],
        Inr (Message ''Forward Geocoding error with google: google is not defined''))
   \<and> \<not> containsString ''Forward Geocoding error with google: google is not defined''
         ''No address provided for forward geocoding''"
  by (simp add: newGeocoder_def model_defs sample_defs)

end
